theory Spec2Isabelle
  imports Main
begin

section \<open>The Gazebo adaptor of the collision benchmark\<close>

text \<open>
  A shallow embedding of \<^verbatim>\<open>collision_benchmark/GazeboPhysicsWorld.cc\<close>, the
  adaptor that exposes a world of the Gazebo simulator through the interface
  \<^verbatim>\<open>PhysicsEngineWorld\<close>, and of the engine selection of
  \<^verbatim>\<open>test/Static_TEST.cc\<close>.

  The simulator's objects are not part of the repository. They are modelled by the data
  the adaptor reads from them and by a log of the calls the adaptor issues on them; what
  the physics engines compute is left open (type parameters and function parameters).
  The build configuration is the one of \<^verbatim>\<open>CMakeLists.txt\<close> and of the file itself:
  \<^verbatim>\<open>CONTACTS_ENFORCABLE\<close> and \<^verbatim>\<open>NEW_WORLDRUN_SOLUTION\<close> are defined;
  \<^verbatim>\<open>DEBUG\<close> is a parameter, since only debug builds define it.
\<close>

subsection \<open>Failures\<close>

text \<open>
  A failed \<^verbatim>\<open>GZ_ASSERT\<close> or \<^verbatim>\<open>assert\<close> (with its message), the
  dereference of a null or dangling pointer, and a read beyond the end of an array. None
  of them returns to the caller.
\<close>

datatype error = AssertionFailed string | InvalidPointer | OutOfRange

subsection \<open>The simulator's objects\<close>

type_synonym addr = nat

type_synonym ModelID = string

text \<open>
  \<^verbatim>\<open>gazebo::physics::Collision\<close>, reduced to what the adaptor asks of it: the name
  of its model and of its link, \<open>None\<close> when \<^verbatim>\<open>GetModel()\<close> or
  \<^verbatim>\<open>GetLink()\<close> is a null pointer.
\<close>

record gz_Collision =
  GetModel :: "string option"
  GetLink :: "string option"

text \<open>
  \<^verbatim>\<open>gazebo::physics::Contact\<close>: two collisions, the number of contact points
  (an \<^verbatim>\<open>int\<close>) and four arrays indexed by the point. The element types
  (\<^verbatim>\<open>Vector3d\<close>, \<^verbatim>\<open>JointWrench\<close>, \<^verbatim>\<open>double\<close>) are only copied,
  so they are type parameters \<open>'v\<close>, \<open>'w\<close>, \<open>'d\<close>.
\<close>

record ('v, 'w, 'd) gz_Contact =
  collision1 :: gz_Collision
  collision2 :: gz_Collision
  count :: int
  positions :: "'v list"
  normals :: "'v list"
  wrench :: "'w list"
  depths :: "'d list"

text \<open>
  \<^verbatim>\<open>gazebo::physics::ContactManager\<close>: \<^verbatim>\<open>GetContacts()\<close> is a vector of
  pointers to contacts. \<^verbatim>\<open>gazebo::physics::PhysicsEngine\<close>:
  \<^verbatim>\<open>GetContactManager()\<close> may be null.
\<close>

record gz_ContactManager =
  GetContacts :: "addr list"

record gz_PhysicsEngine =
  GetContactManager :: "gz_ContactManager option"

text \<open>
  The calls the adaptor issues on a world, in the order it issues them, each with the
  argument the world receives. \<^verbatim>\<open>World::Run\<close> and \<^verbatim>\<open>World::Step\<close> are
  declared by the simulator with an \<^verbatim>\<open>unsigned int\<close> parameter, so their argument
  is a natural number.
\<close>

datatype gz_call =
  Call_Stop
  | Call_SetPaused bool
  | Call_Run nat
  | Call_Step nat
  | Call_SetEnforceContacts bool

text \<open>
  The implicit conversion of a C++ \<^verbatim>\<open>int\<close> (32 bits, from \<open>- 2 ^ 31\<close> up to
  \<open>2 ^ 31 - 1\<close>) to \<^verbatim>\<open>unsigned int\<close>: the value modulo \<open>2 ^ 32\<close>.
\<close>

definition unsigned_of_int :: "int \<Rightarrow> nat" where
  "unsigned_of_int i = nat (i mod 2 ^ 32)"

text \<open>
  \<^verbatim>\<open>gazebo::physics::World\<close>: its name, the flag \<^verbatim>\<open>IsPaused()\<close> reads and
  \<^verbatim>\<open>SetPaused\<close> writes, the state a \<^verbatim>\<open>WorldState\<close> snapshot captures
  (type parameter \<open>'ws\<close>), the physics engine (\<open>None\<close> when \<^verbatim>\<open>Physics()\<close>
  is null) and the log of calls.
\<close>

record 'ws gz_World =
  World_Name :: string
  World_pause :: bool
  World_state :: 'ws
  World_Physics :: "gz_PhysicsEngine option"
  World_calls :: "gz_call list"

text \<open>
  The objects the simulator owns, by address, and the function-static flag
  \<^verbatim>\<open>printOnce\<close> of \<^verbatim>\<open>Update\<close>.
\<close>

record ('v, 'w, 'd, 'ws) store =
  worlds :: "addr \<Rightarrow> 'ws gz_World option"
  contact_heap :: "addr \<Rightarrow> ('v, 'w, 'd) gz_Contact option"
  printOnce :: bool

definition deref_world ::
  "('v, 'w, 'd, 'ws) store \<Rightarrow> addr option \<Rightarrow> error + 'ws gz_World" where
  "deref_world s p =
     (case p of
        None \<Rightarrow> Inl InvalidPointer
      | Some a \<Rightarrow> (case worlds s a of None \<Rightarrow> Inl InvalidPointer | Some w \<Rightarrow> Inr w))"

subsection \<open>The comparison structs\<close>

text \<open>
  Modelled from the spec: \<^verbatim>\<open>collision_benchmark/ContactInfo.hh\<close> is not among the
  sources. The spec calls its types thin comparison structs into which fields of the
  simulator's records are copied: a \<open>Contact\<close> holds the four values its constructor is
  given, a \<open>ContactInfo\<close> the names of two models and of their parts, and a vector
  \<open>contacts\<close> that starts empty.
\<close>

record ('v, 'w, 'd) Contact =
  position :: 'v
  normal :: 'v
  contact_wrench :: 'w
  depth :: 'd

record ('v, 'w, 'd) ContactInfo =
  model1 :: ModelID
  modelPart1 :: string
  model2 :: ModelID
  modelPart2 :: string
  contacts :: "('v, 'w, 'd) Contact list"

definition new_Contact :: "'v \<Rightarrow> 'v \<Rightarrow> 'w \<Rightarrow> 'd \<Rightarrow> ('v, 'w, 'd) Contact" where
  "new_Contact p n w d = \<lparr>position = p, normal = n, contact_wrench = w, depth = d\<rparr>"

definition new_ContactInfo ::
  "ModelID \<Rightarrow> string \<Rightarrow> ModelID \<Rightarrow> string \<Rightarrow> ('v, 'w, 'd) ContactInfo" where
  "new_ContactInfo m1 p1 m2 p2 =
     \<lparr>model1 = m1, modelPart1 = p1, model2 = m2, modelPart2 = p2, contacts = []\<rparr>"

subsection \<open>GetContactInfoHelper\<close>

text \<open>
  The test that makes the loop \<^verbatim>\<open>continue\<close>: \<open>m1\<close> and \<open>m2\<close> are the two
  pointer arguments (\<open>None\<close> for \<^verbatim>\<open>NULL\<close>), \<open>m1Name\<close> and \<open>m2Name\<close> the
  names of the contact's models.
\<close>

definition skip_contact ::
  "ModelID option \<Rightarrow> ModelID option \<Rightarrow> string \<Rightarrow> string \<Rightarrow> bool" where
  "skip_contact m1 m2 m1Name m2Name =
     (case m1 of
        None \<Rightarrow> False
      | Some a \<Rightarrow>
          (case m2 of
             Some b \<Rightarrow> (a \<noteq> m1Name \<or> b \<noteq> m2Name) \<and> (a \<noteq> m2Name \<or> b \<noteq> m1Name)
           | None \<Rightarrow> a \<noteq> m1Name \<and> a \<noteq> m2Name))"

text \<open>
  The inner loop \<^verbatim>\<open>for (int i=0; i < c->count; ++i)\<close>, which appends one
  \<open>Contact\<close> per point to \<^verbatim>\<open>cInfo->contacts\<close>.
\<close>

function copy_points ::
  "('v, 'w, 'd) gz_Contact \<Rightarrow> int \<Rightarrow> ('v, 'w, 'd) Contact list
     \<Rightarrow> error + ('v, 'w, 'd) Contact list" where
  "copy_points c i acc =
     (if i < count c then
        (if nat i < length (positions c) \<and> nat i < length (normals c)
            \<and> nat i < length (wrench c) \<and> nat i < length (depths c)
         then copy_points c (i + 1)
                (acc @ [new_Contact (positions c ! nat i) (normals c ! nat i)
                          (wrench c ! nat i) (depths c ! nat i)])
         else Inl OutOfRange)
      else Inr acc)"
  by pat_completeness auto
termination
  by (relation "measure (\<lambda>(c, i, acc). nat (count c - i))") auto

declare copy_points.simps [simp del]

definition consistency_message :: "string \<Rightarrow> string \<Rightarrow> string \<Rightarrow> string" where
  "consistency_message worldName m1Name m2Name =
     ''CONSISTENCY GazeboPhysicsWorld: If there are no contacts, ''
     @ ''there should be no collision!! World: '' @ worldName
     @ '' Models: '' @ m1Name @ '', '' @ m2Name"

text \<open>
  The outer loop over the contact manager's vector. The accumulator is \<open>ret\<close> and the
  lines written to \<^verbatim>\<open>std::cerr\<close>.
\<close>

fun contact_info_loop ::
  "('v, 'w, 'd, 'ws) store \<Rightarrow> string \<Rightarrow> ModelID option \<Rightarrow> ModelID option \<Rightarrow> addr list
     \<Rightarrow> ('v, 'w, 'd) ContactInfo list \<times> string list
     \<Rightarrow> error + (('v, 'w, 'd) ContactInfo list \<times> string list)" where
  "contact_info_loop s worldName m1 m2 [] acc = Inr acc"
| "contact_info_loop s worldName m1 m2 (p # ps) acc =
     (case contact_heap s p of
        None \<Rightarrow> Inl InvalidPointer
      | Some c \<Rightarrow>
     (case GetModel (collision1 c) of
        None \<Rightarrow> Inl (AssertionFailed ''Model of collision1 must be set'')
      | Some m1Name \<Rightarrow>
     (case GetLink (collision1 c) of
        None \<Rightarrow> Inl (AssertionFailed ''Link of collision1 must be set'')
      | Some l1Name \<Rightarrow>
     (case GetModel (collision2 c) of
        None \<Rightarrow> Inl (AssertionFailed ''Model of collision2 must be set'')
      | Some m2Name \<Rightarrow>
     (case GetLink (collision2 c) of
        None \<Rightarrow> Inl (AssertionFailed ''Link of collision2 must be set'')
      | Some l2Name \<Rightarrow>
        if skip_contact m1 m2 m1Name m2Name
        then contact_info_loop s worldName m1 m2 ps acc
        else
          (case copy_points c 0 (contacts (new_ContactInfo m1Name l1Name m2Name l2Name)) of
             Inl e \<Rightarrow> Inl e
           | Inr pts \<Rightarrow>
               if pts = []
               then contact_info_loop s worldName m1 m2 ps
                      (fst acc, snd acc @ [consistency_message worldName m1Name m2Name])
               else contact_info_loop s worldName m1 m2 ps
                      (fst acc @ [(new_ContactInfo m1Name l1Name m2Name l2Name)
                                    \<lparr>contacts := pts\<rparr>],
                       snd acc)))))))"

definition GetContactInfoHelper ::
  "('v, 'w, 'd, 'ws) store \<Rightarrow> addr option \<Rightarrow> ModelID option \<Rightarrow> ModelID option
     \<Rightarrow> error + (('v, 'w, 'd) ContactInfo list \<times> string list)" where
  "GetContactInfoHelper s world_ptr m1 m2 =
     (case deref_world s world_ptr of
        Inl e \<Rightarrow> Inl e
      | Inr w \<Rightarrow>
     (case World_Physics w of
        None \<Rightarrow> Inl InvalidPointer
      | Some engine \<Rightarrow>
     (case GetContactManager engine of
        None \<Rightarrow> Inl (AssertionFailed ''Contact manager has to be set'')
      | Some contactManager \<Rightarrow>
          contact_info_loop s (World_Name w) m1 m2 (GetContacts contactManager) ([], []))))"

subsection \<open>GetNativeContactsHelper\<close>

text \<open>
  \<^verbatim>\<open>std::shared_ptr<gazebo::physics::Contact>\<close>: the stored pointer and the deleter
  that the destruction of the last owner calls on it.
\<close>

record ('v, 'w, 'd, 'ws) NativeContactPtr =
  sp_get :: addr
  sp_deleter :: "addr \<Rightarrow> ('v, 'w, 'd, 'ws) store \<Rightarrow> ('v, 'w, 'd, 'ws) store"

text \<open>\<^verbatim>\<open>template<typename Type> void null_deleter(Type *){}\<close>\<close>

definition null_deleter ::
  "addr \<Rightarrow> ('v, 'w, 'd, 'ws) store \<Rightarrow> ('v, 'w, 'd, 'ws) store" where
  "null_deleter p s = s"

text \<open>
  For comparison, what a shared pointer built from the raw pointer alone would call:
  \<^verbatim>\<open>delete p\<close>, which ends the lifetime of the record at \<open>p\<close>.
\<close>

definition default_delete ::
  "addr \<Rightarrow> ('v, 'w, 'd, 'ws) store \<Rightarrow> ('v, 'w, 'd, 'ws) store" where
  "default_delete p s = s\<lparr>contact_heap := (contact_heap s)(p := None)\<rparr>"

text \<open>Destroying the last owner of a shared pointer, and of each pointer of a vector.\<close>

definition sp_release ::
  "('v, 'w, 'd, 'ws) NativeContactPtr \<Rightarrow> ('v, 'w, 'd, 'ws) store \<Rightarrow> ('v, 'w, 'd, 'ws) store" where
  "sp_release sp s = sp_deleter sp (sp_get sp) s"

definition release_all ::
  "('v, 'w, 'd, 'ws) NativeContactPtr list \<Rightarrow> ('v, 'w, 'd, 'ws) store
     \<Rightarrow> ('v, 'w, 'd, 'ws) store" where
  "release_all sps s = fold sp_release sps s"

fun native_contacts_loop ::
  "('v, 'w, 'd, 'ws) store \<Rightarrow> ModelID option \<Rightarrow> ModelID option \<Rightarrow> addr list
     \<Rightarrow> ('v, 'w, 'd, 'ws) NativeContactPtr list
     \<Rightarrow> error + ('v, 'w, 'd, 'ws) NativeContactPtr list" where
  "native_contacts_loop s m1 m2 [] ret = Inr ret"
| "native_contacts_loop s m1 m2 (p # ps) ret =
     (case contact_heap s p of
        None \<Rightarrow> Inl InvalidPointer
      | Some c \<Rightarrow>
     (case GetModel (collision1 c) of
        None \<Rightarrow> Inl (AssertionFailed ''Model of collision1 must be set'')
      | Some m1Name \<Rightarrow>
     (case GetLink (collision1 c) of
        None \<Rightarrow> Inl (AssertionFailed ''Link of collision1 must be set'')
      | Some l1Name \<Rightarrow>
     (case GetModel (collision2 c) of
        None \<Rightarrow> Inl (AssertionFailed ''Model of collision2 must be set'')
      | Some m2Name \<Rightarrow>
     (case GetLink (collision2 c) of
        None \<Rightarrow> Inl (AssertionFailed ''Link of collision2 must be set'')
      | Some l2Name \<Rightarrow>
        if skip_contact m1 m2 m1Name m2Name
        then native_contacts_loop s m1 m2 ps ret
        else native_contacts_loop s m1 m2 ps
               (ret @ [\<lparr>sp_get = p, sp_deleter = null_deleter\<rparr>]))))))"

definition GetNativeContactsHelper ::
  "('v, 'w, 'd, 'ws) store \<Rightarrow> addr option \<Rightarrow> ModelID option \<Rightarrow> ModelID option
     \<Rightarrow> error + ('v, 'w, 'd, 'ws) NativeContactPtr list" where
  "GetNativeContactsHelper s world_ptr m1 m2 =
     (case deref_world s world_ptr of
        Inl e \<Rightarrow> Inl e
      | Inr w \<Rightarrow>
     (case World_Physics w of
        None \<Rightarrow> Inl InvalidPointer
      | Some engine \<Rightarrow>
     (case GetContactManager engine of
        None \<Rightarrow> Inl (AssertionFailed ''Contact manager has to be set'')
      | Some contactManager \<Rightarrow>
          native_contacts_loop s m1 m2 (GetContacts contactManager) [])))"

subsection \<open>The adaptor\<close>

datatype OpResult = FAILED | NOT_SUPPORTED | SUCCESS

datatype RefResult = ERROR | COPIED | REFERENCED

text \<open>
  The members of \<^verbatim>\<open>GazeboPhysicsWorld\<close> that this configuration uses: the shared
  pointer to the world (\<open>None\<close> when null), and two flags.
\<close>

record GazeboPhysicsWorld =
  world :: "addr option"
  enforceContactComputation :: bool
  paused :: bool

definition new_GazeboPhysicsWorld :: "bool \<Rightarrow> GazeboPhysicsWorld" where
  "new_GazeboPhysicsWorld enforce =
     \<lparr>world = None, enforceContactComputation = enforce, paused = False\<rparr>"

text \<open>
  Modelled from the spec: \<^verbatim>\<open>collision_benchmark/boost_std_conversion.hh\<close> is not
  among the sources. An adaptor exposes a simulator-owned object without owning its
  lifecycle, and the interface promises that \<^verbatim>\<open>GetWorld()\<close> of a referencing
  adaptor points to the world it was given: the conversions between
  \<^verbatim>\<open>std::shared_ptr\<close> and \<^verbatim>\<open>boost::shared_ptr\<close> change the type of the smart
  pointer and keep the object pointed to.
\<close>

definition to_boost_ptr :: "addr option \<Rightarrow> addr option" where
  "to_boost_ptr p = p"

definition to_std_ptr :: "addr option \<Rightarrow> addr option" where
  "to_std_ptr p = p"

text \<open>
  A call on the simulator's world: it is logged, and \<^verbatim>\<open>SetPaused\<close> sets the flag
  that \<^verbatim>\<open>IsPaused\<close> reads. What the simulator computes during a call (the state
  after a step) is not modelled: the log says which calls were made, in which order.
  \<open>world_call\<close> is the call through the adaptor's pointer, \<^verbatim>\<open>world->...\<close>.
\<close>

definition apply_call :: "gz_call \<Rightarrow> 'ws gz_World \<Rightarrow> 'ws gz_World" where
  "apply_call c w =
     (case c of
        Call_SetPaused b \<Rightarrow> w\<lparr>World_pause := b, World_calls := World_calls w @ [c]\<rparr>
      | _ \<Rightarrow> w\<lparr>World_calls := World_calls w @ [c]\<rparr>)"

definition world_call ::
  "addr option \<Rightarrow> gz_call \<Rightarrow> ('v, 'w, 'd, 'ws) store \<Rightarrow> error + ('v, 'w, 'd, 'ws) store" where
  "world_call p c s =
     (case p of
        None \<Rightarrow> Inl InvalidPointer
      | Some a \<Rightarrow>
          (case worlds s a of
             None \<Rightarrow> Inl InvalidPointer
           | Some w \<Rightarrow> Inr (s\<lparr>worlds := (worlds s)(a := Some (apply_call c w))\<rparr>)))"

definition IsAdaptor :: "GazeboPhysicsWorld \<Rightarrow> bool" where
  "IsAdaptor a = True"

definition SetEnforceContactsComputation ::
  "bool \<Rightarrow> GazeboPhysicsWorld \<Rightarrow> ('v, 'w, 'd, 'ws) store
     \<Rightarrow> error + (GazeboPhysicsWorld \<times> ('v, 'w, 'd, 'ws) store)" where
  "SetEnforceContactsComputation flag a s =
     (let a' = a\<lparr>enforceContactComputation := flag\<rparr> in
      case deref_world s (world a') of
        Inl e \<Rightarrow> Inl e
      | Inr w \<Rightarrow>
     (case World_Physics w of
        None \<Rightarrow>
          Inl (AssertionFailed ''world->Physics() && world->Physics()->GetContactManager()'')
      | Some engine \<Rightarrow>
     (case GetContactManager engine of
        None \<Rightarrow>
          Inl (AssertionFailed ''world->Physics() && world->Physics()->GetContactManager()'')
      | Some contactManager \<Rightarrow>
     (case world_call (world a') (Call_SetEnforceContacts flag) s of
        Inl e \<Rightarrow> Inl e
      | Inr s' \<Rightarrow> Inr (a', s')))))"

definition PostWorldLoaded ::
  "GazeboPhysicsWorld \<Rightarrow> ('v, 'w, 'd, 'ws) store \<Rightarrow> error + ('v, 'w, 'd, 'ws) store" where
  "PostWorldLoaded a s =
     (case world a of
        None \<Rightarrow> Inl (AssertionFailed ''World is null, must have been loaded!'')
      | Some _ \<Rightarrow>
     (case world_call (world a) Call_Stop s of
        Inl e \<Rightarrow> Inl e
      | Inr s1 \<Rightarrow>
     (case world_call (world a) (Call_SetPaused True) s1 of
        Inl e \<Rightarrow> Inl e
      | Inr s2 \<Rightarrow> world_call (world a) (Call_Run 0) s2)))"

definition SetWorld ::
  "GazeboPhysicsWorld \<Rightarrow> ('v, 'w, 'd, 'ws) store \<Rightarrow> addr option
     \<Rightarrow> error + (RefResult \<times> GazeboPhysicsWorld \<times> ('v, 'w, 'd, 'ws) store)" where
  "SetWorld a s w =
     (let a1 = a\<lparr>world := to_boost_ptr w\<rparr> in
      case SetEnforceContactsComputation (enforceContactComputation a1) a1 s of
        Inl e \<Rightarrow> Inl e
      | Inr (a2, s2) \<Rightarrow>
     (case PostWorldLoaded a2 s2 of
        Inl e \<Rightarrow> Inl e
      | Inr s3 \<Rightarrow> Inr (REFERENCED, a2, s3)))"

definition GetWorld :: "GazeboPhysicsWorld \<Rightarrow> addr option" where
  "GetWorld a = to_std_ptr (world a)"

definition SetPaused :: "bool \<Rightarrow> GazeboPhysicsWorld \<Rightarrow> GazeboPhysicsWorld" where
  "SetPaused flag a = a\<lparr>paused := flag\<rparr>"

definition IsPaused :: "GazeboPhysicsWorld \<Rightarrow> bool" where
  "IsPaused a = paused a"

definition not_paused_warning :: string where
  "not_paused_warning =
     ''DEBUG WARNING: The Gazebo world is not paused. ''
     @ ''In GazeboPhysicsWorld::Update(), we operate it in ''
     @ ''paused mode and rely on manually doint the updates ''
     @ ''instead of letting the gazebo world update ''
     @ ''itself continuously.''"

text \<open>
  \<^verbatim>\<open>Update(int steps, bool force)\<close>. The result is what was written to
  \<^verbatim>\<open>std::cout\<close> and the store after the calls. \<open>steps\<close> is a C++
  \<^verbatim>\<open>int\<close>; \<^verbatim>\<open>world->Step(steps)\<close> converts it to the
  \<^verbatim>\<open>unsigned int\<close> that \<^verbatim>\<open>World::Step\<close> takes.
\<close>

definition Update ::
  "int \<Rightarrow> bool \<Rightarrow> GazeboPhysicsWorld \<Rightarrow> ('v, 'w, 'd, 'ws) store
     \<Rightarrow> error + (string list \<times> ('v, 'w, 'd, 'ws) store)" where
  "Update steps force a s =
     (if \<not> force \<and> IsPaused a then Inr ([], s)
      else
        (case deref_world s (world a) of
           Inl e \<Rightarrow> Inl e
         | Inr w \<Rightarrow>
             if \<not> World_pause w then
               (case world_call (world a) (Call_SetPaused True) (s\<lparr>printOnce := False\<rparr>) of
                  Inl e \<Rightarrow> Inl e
                | Inr s1 \<Rightarrow>
                    (case world_call (world a) (Call_Step (unsigned_of_int steps)) s1 of
                       Inl e \<Rightarrow> Inl e
                     | Inr s2 \<Rightarrow>
                         Inr (if printOnce s then [not_paused_warning] else [], s2)))
             else
               (case world_call (world a) (Call_Step (unsigned_of_int steps)) s of
                  Inl e \<Rightarrow> Inl e
                | Inr s2 \<Rightarrow> Inr ([], s2))))"

text \<open>
  The overloads of \<^verbatim>\<open>GetContactInfo\<close> and \<^verbatim>\<open>GetNativeContacts\<close>: the ones
  that take two model IDs carry the suffix \<open>2\<close>. The first result of
  \<open>GetContactInfo\<close> is the returned vector, the second the lines written to
  \<^verbatim>\<open>std::cerr\<close>.
\<close>

definition GetContactInfo ::
  "GazeboPhysicsWorld \<Rightarrow> ('v, 'w, 'd, 'ws) store
     \<Rightarrow> error + (('v, 'w, 'd) ContactInfo list \<times> string list)" where
  "GetContactInfo a s = GetContactInfoHelper s (world a) None None"

definition GetContactInfo2 ::
  "GazeboPhysicsWorld \<Rightarrow> ('v, 'w, 'd, 'ws) store \<Rightarrow> ModelID \<Rightarrow> ModelID
     \<Rightarrow> error + (('v, 'w, 'd) ContactInfo list \<times> string list)" where
  "GetContactInfo2 a s m1 m2 = GetContactInfoHelper s (world a) (Some m1) (Some m2)"

definition GetNativeContacts ::
  "GazeboPhysicsWorld \<Rightarrow> ('v, 'w, 'd, 'ws) store
     \<Rightarrow> error + ('v, 'w, 'd, 'ws) NativeContactPtr list" where
  "GetNativeContacts a s = GetNativeContactsHelper s (world a) None None"

definition GetNativeContacts2 ::
  "GazeboPhysicsWorld \<Rightarrow> ('v, 'w, 'd, 'ws) store \<Rightarrow> ModelID \<Rightarrow> ModelID
     \<Rightarrow> error + ('v, 'w, 'd, 'ws) NativeContactPtr list" where
  "GetNativeContacts2 a s m1 m2 = GetNativeContactsHelper s (world a) (Some m1) (Some m2)"

subsection \<open>World states\<close>

text \<open>
  \<^verbatim>\<open>GetWorldState\<close> takes a snapshot of the world. \<^verbatim>\<open>GetWorldStateDiff\<close>
  subtracts it from \<open>other\<close> with the simulator's \<^verbatim>\<open>WorldState::operator-\<close>, the
  parameter \<open>state_minus\<close>.
\<close>

definition GetWorldState ::
  "GazeboPhysicsWorld \<Rightarrow> ('v, 'w, 'd, 'ws) store \<Rightarrow> error + 'ws" where
  "GetWorldState a s =
     (case deref_world s (world a) of Inl e \<Rightarrow> Inl e | Inr w \<Rightarrow> Inr (World_state w))"

definition GetWorldStateDiff ::
  "('ws \<Rightarrow> 'ws \<Rightarrow> 'ws) \<Rightarrow> GazeboPhysicsWorld \<Rightarrow> ('v, 'w, 'd, 'ws) store \<Rightarrow> 'ws
     \<Rightarrow> error + 'ws" where
  "GetWorldStateDiff state_minus a s other =
     (case GetWorldState a s of
        Inl e \<Rightarrow> Inl e
      | Inr cur \<Rightarrow> Inr (state_minus other cur))"

text \<open>
  \<^verbatim>\<open>SetWorldState(state, isDiff)\<close>. Its helper
  \<^verbatim>\<open>collision_benchmark::SetWorldState(world, state)\<close> and the comparison
  \<^verbatim>\<open>GazeboStateCompare::Equal\<close> (under the tolerances the code builds) are not among
  the sources: they are the parameters \<open>set_state\<close>, which may fail, and \<open>Equal\<close>.
  \<open>DEBUG\<close> says whether the build defines \<^verbatim>\<open>DEBUG\<close>. The result is the
  \<open>OpResult\<close>, what was written to \<^verbatim>\<open>std::cerr\<close>, and the store.
\<close>

definition SetWorldState ::
  "bool \<Rightarrow> (addr option \<Rightarrow> 'ws \<Rightarrow> ('v, 'w, 'd, 'ws) store \<Rightarrow> error + ('v, 'w, 'd, 'ws) store)
     \<Rightarrow> ('ws \<Rightarrow> 'ws \<Rightarrow> bool) \<Rightarrow> GazeboPhysicsWorld \<Rightarrow> ('v, 'w, 'd, 'ws) store \<Rightarrow> 'ws \<Rightarrow> bool
     \<Rightarrow> error + (OpResult \<times> string list \<times> ('v, 'w, 'd, 'ws) store)" where
  "SetWorldState DEBUG set_state Equal a s st isDiff =
     (case set_state (world a) st s of
        Inl e \<Rightarrow> Inl e
      | Inr s' \<Rightarrow>
          if DEBUG then
            (case deref_world s' (world a) of
               Inl e \<Rightarrow> Inl e
             | Inr w \<Rightarrow>
                 Inr (SUCCESS,
                      if \<not> Equal (World_state w) st
                      then [''Target state was not set as supposed to!!''] else [],
                      s'))
          else Inr (SUCCESS, [], s'))"

subsection \<open>The static tests\<close>

text \<open>
  \<^verbatim>\<open>test/Static_TEST.cc\<close>. The shapes are values of
  \<^verbatim>\<open>collision_benchmark::Shape\<close>: the primitives with the numbers they are created
  from, and a triangle mesh with its mesh data (type parameter \<open>'m\<close>, since the sphere
  mesh comes from a generator outside the repository) and its name.
\<close>

datatype ('n, 'm) Shape =
  CreateBox 'n 'n 'n
  | CreateCylinder 'n 'n
  | CreateSphere 'n
  | SimpleTriMeshShape 'm string

text \<open>
  The engines each test pushes onto \<^verbatim>\<open>selectedEngines\<close>; the line that would push
  \<^verbatim>\<open>"simbody"\<close> is commented out in all three tests.
\<close>

definition TwoShapesTest1_selectedEngines :: "string list" where
  "TwoShapesTest1_selectedEngines = [] @ [''bullet''] @ [''ode''] @ [''dart'']"

definition CylinderAndTwoTriangles_selectedEngines :: "string list" where
  "CylinderAndTwoTriangles_selectedEngines = [] @ [''bullet''] @ [''ode''] @ [''dart'']"

definition SpherePrimMesh_selectedEngines :: "string list" where
  "SpherePrimMesh_selectedEngines = [] @ [''bullet''] @ [''ode''] @ [''dart'']"

text \<open>
  Modelled from the spec: \<^verbatim>\<open>StaticTestFramework\<close> (\<^verbatim>\<open>PrepareWorld\<close>,
  \<^verbatim>\<open>LoadShape\<close>) is not among the sources. The spec says that the same scene
  description is loaded into several physics-engine worlds: \<open>PrepareWorld\<close> makes one
  empty world per engine it is given, and \<open>LoadShape\<close> adds the shape, under the given
  model name, to every world.
\<close>

record ('n, 'm) engine_world =
  engine_name :: string
  loaded_models :: "(string \<times> ('n, 'm) Shape) list"

definition PrepareWorld :: "string list \<Rightarrow> ('n, 'm) engine_world list" where
  "PrepareWorld engines = map (\<lambda>e. \<lparr>engine_name = e, loaded_models = []\<rparr>) engines"

definition LoadShape ::
  "('n, 'm) Shape \<Rightarrow> string \<Rightarrow> ('n, 'm) engine_world list \<Rightarrow> ('n, 'm) engine_world list" where
  "LoadShape shape modelName ws = map (\<lambda>w. w\<lparr>loaded_models := loaded_models w @ [(modelName, shape)]\<rparr>) ws"

text \<open>
  The worlds of \<^verbatim>\<open>TwoShapesTest1\<close> and of \<^verbatim>\<open>SpherePrimMesh\<close> when
  \<^verbatim>\<open>AaBbTest\<close> starts to compare contacts.
\<close>

definition TwoShapesTest1_worlds :: "('n::numeral, 'm) engine_world list" where
  "TwoShapesTest1_worlds =
     LoadShape (CreateCylinder 1 3) ''model2''
       (LoadShape (CreateBox 2 2 2) ''model1'' (PrepareWorld TwoShapesTest1_selectedEngines))"

definition SpherePrimMesh_worlds :: "'m \<Rightarrow> ('n::numeral, 'm) engine_world list" where
  "SpherePrimMesh_worlds sphereMeshData =
     LoadShape (CreateSphere 2) ''SpherePrimitive''
       (LoadShape (SimpleTriMeshShape sphereMeshData ''SphereMesh'') ''SphereMesh''
          (PrepareWorld SpherePrimMesh_selectedEngines))"

subsection \<open>The vocabulary of the properties\<close>

text \<open>
  The definitions of this subsection are not translated from the code: they say what the
  properties below compare the code with.

  \<open>manager_records s p\<close> is the world that the pointer \<open>p\<close> points to, and the
  records that the pointers of its contact manager point to, in the manager's order; it
  is \<open>None\<close> when one of the pointers on the way is null or dangling.
\<close>

definition manager_records ::
  "('v, 'w, 'd, 'ws) store \<Rightarrow> addr option
     \<Rightarrow> ('ws gz_World \<times> ('v, 'w, 'd) gz_Contact list) option" where
  "manager_records s p =
     (case deref_world s p of
        Inl e \<Rightarrow> None
      | Inr w \<Rightarrow>
     (case World_Physics w of
        None \<Rightarrow> None
      | Some engine \<Rightarrow>
     (case GetContactManager engine of
        None \<Rightarrow> None
      | Some contactManager \<Rightarrow>
     (case those (map (contact_heap s) (GetContacts contactManager)) of
        None \<Rightarrow> None
      | Some cs \<Rightarrow> Some (w, cs)))))"

text \<open>
  A record is well formed when the models and links of both collisions are set and the
  four arrays hold at least \<open>count\<close> elements.
\<close>

definition well_formed :: "('v, 'w, 'd) gz_Contact \<Rightarrow> bool" where
  "well_formed c =
     (GetModel (collision1 c) \<noteq> None \<and> GetLink (collision1 c) \<noteq> None
      \<and> GetModel (collision2 c) \<noteq> None \<and> GetLink (collision2 c) \<noteq> None
      \<and> count c \<le> int (length (positions c)) \<and> count c \<le> int (length (normals c))
      \<and> count c \<le> int (length (wrench c)) \<and> count c \<le> int (length (depths c)))"

text \<open>The two colliding models of a record are \<open>m1\<close> and \<open>m2\<close>, in either order.\<close>

definition same_models :: "ModelID \<Rightarrow> ModelID \<Rightarrow> ('v, 'w, 'd) gz_Contact \<Rightarrow> bool" where
  "same_models m1 m2 c =
     (GetModel (collision1 c) = Some m1 \<and> GetModel (collision2 c) = Some m2
      \<or> GetModel (collision1 c) = Some m2 \<and> GetModel (collision2 c) = Some m1)"

text \<open>A record passes the model filter of the helper, whatever its two arguments are.\<close>

definition passes :: "ModelID option \<Rightarrow> ModelID option \<Rightarrow> ('v, 'w, 'd) gz_Contact \<Rightarrow> bool" where
  "passes m1 m2 c =
     (case GetModel (collision1 c) of
        None \<Rightarrow> False
      | Some m1Name \<Rightarrow>
          (case GetModel (collision2 c) of
             None \<Rightarrow> False
           | Some m2Name \<Rightarrow> \<not> skip_contact m1 m2 m1Name m2Name))"

text \<open>
  The field-by-field copy of a well-formed record: the \<open>i\<close>-th point, the whole
  \<open>ContactInfo\<close>, and the line that diagnoses a record without points.
\<close>

definition contact_point :: "('v, 'w, 'd) gz_Contact \<Rightarrow> nat \<Rightarrow> ('v, 'w, 'd) Contact" where
  "contact_point c i =
     \<lparr>position = positions c ! i, normal = normals c ! i,
      contact_wrench = wrench c ! i, depth = depths c ! i\<rparr>"

definition copied_info :: "('v, 'w, 'd) gz_Contact \<Rightarrow> ('v, 'w, 'd) ContactInfo" where
  "copied_info c =
     \<lparr>model1 = the (GetModel (collision1 c)), modelPart1 = the (GetLink (collision1 c)),
      model2 = the (GetModel (collision2 c)), modelPart2 = the (GetLink (collision2 c)),
      contacts = map (contact_point c) [0..<nat (count c)]\<rparr>"

definition diagnosis :: "string \<Rightarrow> ('v, 'w, 'd) gz_Contact \<Rightarrow> string" where
  "diagnosis worldName c =
     consistency_message worldName
       (the (GetModel (collision1 c))) (the (GetModel (collision2 c)))"

subsection \<open>A small world\<close>

text \<open>
  One world at address 7 with three contact records: box against cylinder with two
  points, cylinder against box with no point, box against ground with one point.
  Vectors are triples of integers here, wrenches, depths and world states integers.
\<close>

definition ex_contact ::
  "ModelID \<Rightarrow> ModelID \<Rightarrow> int \<Rightarrow> (int \<times> int \<times> int, int, int) gz_Contact" where
  "ex_contact a b n =
     \<lparr>collision1 = \<lparr>GetModel = Some a, GetLink = Some ''link''\<rparr>,
      collision2 = \<lparr>GetModel = Some b, GetLink = Some ''link''\<rparr>,
      count = n,
      positions = [(0, 0, 1), (0, 1, 1)],
      normals = [(0, 0, 1), (0, 0, -1)],
      wrench = [30, 31],
      depths = [40, 41]\<rparr>"

definition ex_world :: "bool \<Rightarrow> int gz_World" where
  "ex_world p =
     \<lparr>World_Name = ''default'', World_pause = p, World_state = 5,
      World_Physics = Some \<lparr>GetContactManager = Some \<lparr>GetContacts = [0, 1, 2]\<rparr>\<rparr>,
      World_calls = []\<rparr>"

definition ex_store :: "bool \<Rightarrow> (int \<times> int \<times> int, int, int, int) store" where
  "ex_store p =
     \<lparr>worlds = (\<lambda>a. if a = 7 then Some (ex_world p) else None),
      contact_heap =
        (\<lambda>a. if a = 0 then Some (ex_contact ''box'' ''cylinder'' 2)
             else if a = 1 then Some (ex_contact ''cylinder'' ''box'' 0)
             else if a = 2 then Some (ex_contact ''box'' ''ground'' 1)
             else None),
      printOnce = True\<rparr>"

definition ex_adaptor :: "bool \<Rightarrow> GazeboPhysicsWorld" where
  "ex_adaptor p = \<lparr>world = Some 7, enforceContactComputation = False, paused = p\<rparr>"

section \<open>Properties\<close>

subsection \<open>The copy loop\<close>

lemma upt_step:
  assumes "i < n" "0 \<le> i"
  shows "[nat i..<nat n] = nat i # [nat (i + 1)..<nat n]"
proof -
  have a: "nat (i + 1) = Suc (nat i)" using assms by arith
  have b: "nat i < nat n" using assms by arith
  show ?thesis unfolding a using b by (rule upt_conv_Cons)
qed

lemma copy_points_Inr:
  "0 \<le> i \<Longrightarrow> copy_points c i acc = Inr pts
     \<Longrightarrow> pts = acc @ map (contact_point c) [nat i..<nat (count c)]"
proof (induction c i acc rule: copy_points.induct)
  case (1 c i acc)
  show ?case
  proof (cases "i < count c")
    case True
    with "1.prems" have inr: "nat i < length (positions c) \<and> nat i < length (normals c)
            \<and> nat i < length (wrench c) \<and> nat i < length (depths c)"
      by (subst (asm) copy_points.simps) (auto split: if_splits)
    with True "1.prems" have rec: "copy_points c (i + 1)
                (acc @ [new_Contact (positions c ! nat i) (normals c ! nat i)
                          (wrench c ! nat i) (depths c ! nat i)]) = Inr pts"
      by (subst (asm) copy_points.simps) simp
    have "pts = (acc @ [new_Contact (positions c ! nat i) (normals c ! nat i)
                          (wrench c ! nat i) (depths c ! nat i)])
                 @ map (contact_point c) [nat (i + 1)..<nat (count c)]"
      using "1.IH"[OF True inr _ rec] "1.prems"(1) by simp
    moreover have "[nat i..<nat (count c)] = nat i # [nat (i + 1)..<nat (count c)]"
      using True "1.prems"(1) by (rule upt_step)
    ultimately show ?thesis by (simp add: contact_point_def new_Contact_def)
  next
    case False
    with "1.prems" show ?thesis
      by (subst (asm) copy_points.simps) simp
  qed
qed

lemma copy_points_total:
  "0 \<le> i \<Longrightarrow> count c \<le> int (length (positions c)) \<Longrightarrow> count c \<le> int (length (normals c))
     \<Longrightarrow> count c \<le> int (length (wrench c)) \<Longrightarrow> count c \<le> int (length (depths c))
     \<Longrightarrow> copy_points c i acc = Inr (acc @ map (contact_point c) [nat i..<nat (count c)])"
proof (induction c i acc rule: copy_points.induct)
  case (1 c i acc)
  show ?case
  proof (cases "i < count c")
    case True
    with "1.prems" have inr: "nat i < length (positions c) \<and> nat i < length (normals c)
            \<and> nat i < length (wrench c) \<and> nat i < length (depths c)"
      by auto
    have "[nat i..<nat (count c)] = nat i # [nat (i + 1)..<nat (count c)]"
      using True "1.prems"(1) by (rule upt_step)
    then show ?thesis
      using "1.IH"[OF True inr] "1.prems" True inr
      by (subst copy_points.simps) (simp add: contact_point_def new_Contact_def)
  next
    case False
    then show ?thesis
      by (subst copy_points.simps) simp
  qed
qed

subsection \<open>The loop over the contact manager\<close>

lemma those_map_Some:
  "those (map f ps) = Some cs \<Longrightarrow> map f ps = map Some cs"
  by (induction ps arbitrary: cs) (auto split: option.splits)

lemma manager_records_SomeD:
  assumes "manager_records s p = Some (w, cs)"
  shows "\<exists>engine cm. deref_world s p = Inr w \<and> World_Physics w = Some engine
           \<and> GetContactManager engine = Some cm
           \<and> map (contact_heap s) (GetContacts cm) = map Some cs"
  using assms
  by (auto simp: manager_records_def split: sum.splits option.splits dest: those_map_Some)

lemma contact_info_loop_wf:
  assumes "map (contact_heap s) ps = map Some cs" and "\<forall>c\<in>set cs. well_formed c"
  shows "contact_info_loop s worldName m1 m2 ps acc =
           Inr (fst acc @ map copied_info (filter (\<lambda>c. passes m1 m2 c \<and> 0 < count c) cs),
                snd acc @ map (diagnosis worldName)
                            (filter (\<lambda>c. passes m1 m2 c \<and> \<not> 0 < count c) cs))"
  using assms
proof (induction ps arbitrary: cs acc)
  case Nil
  then show ?case by simp
next
  case (Cons p ps)
  from Cons.prems(1) obtain c cs' where cs: "cs = c # cs'" and hp: "contact_heap s p = Some c"
    and rest: "map (contact_heap s) ps = map Some cs'"
    by (cases cs) auto
  from Cons.prems(2) cs have wf: "well_formed c" and wfs: "\<forall>c\<in>set cs'. well_formed c"
    by auto
  from wf obtain a la b lb where names: "GetModel (collision1 c) = Some a"
    "GetLink (collision1 c) = Some la" "GetModel (collision2 c) = Some b"
    "GetLink (collision2 c) = Some lb"
    by (auto simp: well_formed_def)
  have pts: "copy_points c 0 [] = Inr (map (contact_point c) [0..<nat (count c)])"
    using copy_points_total[of 0 c "[]"] wf by (simp add: well_formed_def)
  have pass: "passes m1 m2 c = (\<not> skip_contact m1 m2 a b)"
    by (simp add: passes_def names)
  note IH = Cons.IH[OF rest wfs]
  show ?case
  proof (cases "skip_contact m1 m2 a b")
    case True
    then show ?thesis
      by (simp add: hp names cs pass IH)
  next
    case False
    show ?thesis
    proof (cases "0 < count c")
      case True
      with False show ?thesis
        by (simp add: hp names cs pass IH pts new_ContactInfo_def copied_info_def)
    next
      case neg: False
      with False show ?thesis
        by (simp add: hp names cs pass IH pts new_ContactInfo_def diagnosis_def)
    qed
  qed
qed

lemma contact_info_loop_nonempty:
  "contact_info_loop s worldName m1 m2 ps acc = Inr (ret, cerr)
     \<Longrightarrow> \<forall>info\<in>set (fst acc). contacts info \<noteq> []
     \<Longrightarrow> \<forall>info\<in>set ret. contacts info \<noteq> []"
proof (induction ps arbitrary: acc)
  case Nil
  then show ?case by auto
next
  case (Cons p ps)
  from Cons.prems show ?case
    by (auto simp: new_ContactInfo_def
        split: option.splits if_splits sum.splits dest!: Cons.IH)
qed

lemma GetContactInfoHelper_wf:
  assumes "manager_records s p = Some (w, cs)" and "\<forall>c\<in>set cs. well_formed c"
  shows "GetContactInfoHelper s p m1 m2 =
           Inr (map copied_info (filter (\<lambda>c. passes m1 m2 c \<and> 0 < count c) cs),
                map (diagnosis (World_Name w))
                  (filter (\<lambda>c. passes m1 m2 c \<and> \<not> 0 < count c) cs))"
proof -
  from manager_records_SomeD[OF assms(1)] obtain engine cm where
    w: "deref_world s p = Inr w" "World_Physics w = Some engine"
      "GetContactManager engine = Some cm"
    and cs: "map (contact_heap s) (GetContacts cm) = map Some cs"
    by blast
  show ?thesis
    by (simp add: GetContactInfoHelper_def w contact_info_loop_wf[OF cs assms(2)])
qed

lemma GetContactInfoHelper_nonempty:
  "GetContactInfoHelper s p m1 m2 = Inr (ret, cerr) \<Longrightarrow> \<forall>info\<in>set ret. contacts info \<noteq> []"
  by (auto simp: GetContactInfoHelper_def split: sum.splits option.splits
      dest!: contact_info_loop_nonempty)

lemma passes_None: "well_formed c \<Longrightarrow> passes None None c"
  by (auto simp: passes_def skip_contact_def well_formed_def)

lemma passes_Some:
  "passes (Some m1) (Some m2) c = same_models m1 m2 c"
  by (auto simp: passes_def skip_contact_def same_models_def split: option.splits)


subsection \<open>The small world\<close>

lemma ex_manager_records:
  "manager_records (ex_store p) (world (ex_adaptor q)) =
     Some (ex_world p,
           [ex_contact ''box'' ''cylinder'' 2, ex_contact ''cylinder'' ''box'' 0,
            ex_contact ''box'' ''ground'' 1])"
  by (simp add: manager_records_def deref_world_def ex_store_def ex_adaptor_def ex_world_def)

lemma ex_well_formed:
  "\<forall>c\<in>set [ex_contact ''box'' ''cylinder'' 2, ex_contact ''cylinder'' ''box'' 0,
            ex_contact ''box'' ''ground'' 1]. well_formed c"
  by (simp add: well_formed_def ex_contact_def)

subsection \<open>Contact information\<close>

lemma copied_info_fields:
  assumes "well_formed c" and "0 < count c"
  shows "GetModel (collision1 c) = Some (model1 (copied_info c))
         \<and> GetLink (collision1 c) = Some (modelPart1 (copied_info c))
         \<and> GetModel (collision2 c) = Some (model2 (copied_info c))
         \<and> GetLink (collision2 c) = Some (modelPart2 (copied_info c))
         \<and> int (length (contacts (copied_info c))) = count c
         \<and> (\<forall>i<length (contacts (copied_info c)).
               i < length (positions c) \<and> i < length (normals c)
               \<and> i < length (wrench c) \<and> i < length (depths c)
               \<and> contacts (copied_info c) ! i =
                   \<lparr>position = positions c ! i, normal = normals c ! i,
                    contact_wrench = wrench c ! i, depth = depths c ! i\<rparr>)"
  using assms by (auto simp: well_formed_def copied_info_def contact_point_def)

text \<open>
  C1, as the code has it: where the contact manager's records are well formed, for every
  pair of model IDs \<open>m1\<close> and \<open>m2\<close> the call \<open>GetContactInfo(m1, m2)\<close> returns, in
  the manager's order, the copies of exactly those records that have at least one contact
  point and whose two colliding models are \<open>m1\<close> and \<open>m2\<close> as an unordered pair; the
  call without arguments returns the copy of every record that has at least one contact
  point, with no model filter. A record without points yields no entry: it is reported
  on \<^verbatim>\<open>std::cerr\<close>.
\<close>

theorem GetContactInfo_selects_records_with_points:
  assumes "manager_records s (world a) = Some (w, cs)" and "\<forall>c\<in>set cs. well_formed c"
  shows "GetContactInfo2 a s m1 m2 =
           Inr (map copied_info (filter (\<lambda>c. same_models m1 m2 c \<and> 0 < count c) cs),
                map (diagnosis (World_Name w))
                  (filter (\<lambda>c. same_models m1 m2 c \<and> count c \<le> 0) cs))
         \<and> GetContactInfo a s =
           Inr (map copied_info (filter (\<lambda>c. 0 < count c) cs),
                map (diagnosis (World_Name w)) (filter (\<lambda>c. count c \<le> 0) cs))"
proof
  show "GetContactInfo2 a s m1 m2 =
           Inr (map copied_info (filter (\<lambda>c. same_models m1 m2 c \<and> 0 < count c) cs),
                map (diagnosis (World_Name w))
                  (filter (\<lambda>c. same_models m1 m2 c \<and> count c \<le> 0) cs))"
    unfolding GetContactInfo2_def GetContactInfoHelper_wf[OF assms] passes_Some
    by (simp add: not_less)
  have f: "filter (\<lambda>c. passes None None c \<and> 0 < count c) cs = filter (\<lambda>c. 0 < count c) cs"
    "filter (\<lambda>c. passes None None c \<and> \<not> 0 < count c) cs = filter (\<lambda>c. count c \<le> 0) cs"
    using assms(2) by (auto intro!: filter_cong simp: passes_None)
  show "GetContactInfo a s =
           Inr (map copied_info (filter (\<lambda>c. 0 < count c) cs),
                map (diagnosis (World_Name w)) (filter (\<lambda>c. count c \<le> 0) cs))"
    unfolding GetContactInfo_def GetContactInfoHelper_wf[OF assms] f by simp
qed

theorem GetContactInfo_selects_records_with_points_witness:
  "GetContactInfo2 (ex_adaptor False) (ex_store True) ''cylinder'' ''box'' =
     Inr ([copied_info (ex_contact ''box'' ''cylinder'' 2)],
          [diagnosis ''default'' (ex_contact ''cylinder'' ''box'' 0)])
   \<and> GetContactInfo (ex_adaptor False) (ex_store True) =
     Inr ([copied_info (ex_contact ''box'' ''cylinder'' 2),
           copied_info (ex_contact ''box'' ''ground'' 1)],
          [diagnosis ''default'' (ex_contact ''cylinder'' ''box'' 0)])"
  using GetContactInfo_selects_records_with_points[OF ex_manager_records[of True False]
      ex_well_formed, of "''cylinder''" "''box''"]
  by (simp add: same_models_def ex_contact_def ex_world_def)

text \<open>
  C1 as stated fails: in the small world the second record is a contact of the cylinder
  with the box, and the contact manager holds three records; yet the call for the pair
  cylinder, box returns one entry (of the first record), and the call without arguments
  returns two entries.
\<close>

theorem GetContactInfo_omits_record_without_points:
  "manager_records (ex_store True) (world (ex_adaptor False)) =
     Some (ex_world True,
           [ex_contact ''box'' ''cylinder'' 2, ex_contact ''cylinder'' ''box'' 0,
            ex_contact ''box'' ''ground'' 1])
   \<and> same_models ''cylinder'' ''box'' (ex_contact ''cylinder'' ''box'' 0)
   \<and> GetContactInfo2 (ex_adaptor False) (ex_store True) ''cylinder'' ''box'' =
     Inr ([\<lparr>model1 = ''box'', modelPart1 = ''link'', model2 = ''cylinder'',
            modelPart2 = ''link'',
            contacts =
              [\<lparr>position = (0, 0, 1), normal = (0, 0, 1), contact_wrench = 30, depth = 40\<rparr>,
               \<lparr>position = (0, 1, 1), normal = (0, 0, - 1), contact_wrench = 31,
                 depth = 41\<rparr>]\<rparr>],
          [consistency_message ''default'' ''cylinder'' ''box''])
   \<and> GetContactInfo (ex_adaptor False) (ex_store True) =
     Inr ([\<lparr>model1 = ''box'', modelPart1 = ''link'', model2 = ''cylinder'',
            modelPart2 = ''link'',
            contacts =
              [\<lparr>position = (0, 0, 1), normal = (0, 0, 1), contact_wrench = 30, depth = 40\<rparr>,
               \<lparr>position = (0, 1, 1), normal = (0, 0, - 1), contact_wrench = 31,
                 depth = 41\<rparr>]\<rparr>,
           \<lparr>model1 = ''box'', modelPart1 = ''link'', model2 = ''ground'',
            modelPart2 = ''link'',
            contacts =
              [\<lparr>position = (0, 0, 1), normal = (0, 0, 1), contact_wrench = 30,
                 depth = 40\<rparr>]\<rparr>],
          [consistency_message ''default'' ''cylinder'' ''box''])"
proof (intro conjI)
  show "manager_records (ex_store True) (world (ex_adaptor False)) =
     Some (ex_world True,
           [ex_contact ''box'' ''cylinder'' 2, ex_contact ''cylinder'' ''box'' 0,
            ex_contact ''box'' ''ground'' 1])"
    by (rule ex_manager_records)
  show "same_models ''cylinder'' ''box'' (ex_contact ''cylinder'' ''box'' 0)"
    by (simp add: same_models_def ex_contact_def)
qed (simp_all add: GetContactInfo_def GetContactInfo2_def GetContactInfoHelper_def
      deref_world_def ex_store_def ex_adaptor_def ex_world_def ex_contact_def
      skip_contact_def copy_points.simps new_ContactInfo_def new_Contact_def)

text \<open>
  C4: for every well-formed record of the contact manager that has contact points and
  passes the model filter, the \<open>ContactInfo\<close> returned at its place holds exactly
  \<open>count\<close> entries, the \<open>i\<close>-th built from \<open>positions[i]\<close>, \<open>normals[i]\<close>,
  \<open>wrench[i]\<close> and \<open>depths[i]\<close> of the record, together with the names of the two
  models and of their links. The result is a value: it holds no pointer into the store.
  Both \<open>GetContactInfo\<close> functions are the helper at their arguments.
\<close>

theorem ContactInfo_is_copy_of_record:
  assumes "manager_records s (world a) = Some (w, cs)" and "\<forall>c\<in>set cs. well_formed c"
    and "kept = filter (\<lambda>c. passes m1 m2 c \<and> 0 < count c) cs"
  shows "GetContactInfo a s = GetContactInfoHelper s (world a) None None
         \<and> GetContactInfo2 a s n1 n2 = GetContactInfoHelper s (world a) (Some n1) (Some n2)
         \<and> (\<exists>ret cerr. GetContactInfoHelper s (world a) m1 m2 = Inr (ret, cerr)
              \<and> length ret = length kept
              \<and> (\<forall>k<length kept.
                    GetModel (collision1 (kept ! k)) = Some (model1 (ret ! k))
                    \<and> GetLink (collision1 (kept ! k)) = Some (modelPart1 (ret ! k))
                    \<and> GetModel (collision2 (kept ! k)) = Some (model2 (ret ! k))
                    \<and> GetLink (collision2 (kept ! k)) = Some (modelPart2 (ret ! k))
                    \<and> int (length (contacts (ret ! k))) = count (kept ! k)
                    \<and> (\<forall>i<length (contacts (ret ! k)).
                          i < length (positions (kept ! k)) \<and> i < length (normals (kept ! k))
                          \<and> i < length (wrench (kept ! k)) \<and> i < length (depths (kept ! k))
                          \<and> contacts (ret ! k) ! i =
                              \<lparr>position = positions (kept ! k) ! i,
                               normal = normals (kept ! k) ! i,
                               contact_wrench = wrench (kept ! k) ! i,
                               depth = depths (kept ! k) ! i\<rparr>)))"
proof (intro conjI)
  show "GetContactInfo a s = GetContactInfoHelper s (world a) None None"
    by (simp add: GetContactInfo_def)
  show "GetContactInfo2 a s n1 n2 = GetContactInfoHelper s (world a) (Some n1) (Some n2)"
    by (simp add: GetContactInfo2_def)
  have each: "well_formed (kept ! k) \<and> 0 < count (kept ! k)" if "k < length kept" for k
  proof -
    from that have "kept ! k \<in> set kept" by simp
    with assms(2,3) show ?thesis by auto
  qed
  let ?ret = "map copied_info kept"
  have "GetContactInfoHelper s (world a) m1 m2 =
          Inr (?ret, map (diagnosis (World_Name w))
                       (filter (\<lambda>c. passes m1 m2 c \<and> \<not> 0 < count c) cs))"
    unfolding assms(3) by (rule GetContactInfoHelper_wf[OF assms(1,2)])
  moreover have "length ?ret = length kept" by simp
  moreover have "\<forall>k<length kept.
                    GetModel (collision1 (kept ! k)) = Some (model1 (?ret ! k))
                    \<and> GetLink (collision1 (kept ! k)) = Some (modelPart1 (?ret ! k))
                    \<and> GetModel (collision2 (kept ! k)) = Some (model2 (?ret ! k))
                    \<and> GetLink (collision2 (kept ! k)) = Some (modelPart2 (?ret ! k))
                    \<and> int (length (contacts (?ret ! k))) = count (kept ! k)
                    \<and> (\<forall>i<length (contacts (?ret ! k)).
                          i < length (positions (kept ! k)) \<and> i < length (normals (kept ! k))
                          \<and> i < length (wrench (kept ! k)) \<and> i < length (depths (kept ! k))
                          \<and> contacts (?ret ! k) ! i =
                              \<lparr>position = positions (kept ! k) ! i,
                               normal = normals (kept ! k) ! i,
                               contact_wrench = wrench (kept ! k) ! i,
                               depth = depths (kept ! k) ! i\<rparr>)"
  proof (intro allI impI)
    fix k assume k: "k < length kept"
    from each[OF k] have "well_formed (kept ! k)" and "0 < count (kept ! k)" by simp_all
    from copied_info_fields[OF this] k
    show "GetModel (collision1 (kept ! k)) = Some (model1 (?ret ! k))
                    \<and> GetLink (collision1 (kept ! k)) = Some (modelPart1 (?ret ! k))
                    \<and> GetModel (collision2 (kept ! k)) = Some (model2 (?ret ! k))
                    \<and> GetLink (collision2 (kept ! k)) = Some (modelPart2 (?ret ! k))
                    \<and> int (length (contacts (?ret ! k))) = count (kept ! k)
                    \<and> (\<forall>i<length (contacts (?ret ! k)).
                          i < length (positions (kept ! k)) \<and> i < length (normals (kept ! k))
                          \<and> i < length (wrench (kept ! k)) \<and> i < length (depths (kept ! k))
                          \<and> contacts (?ret ! k) ! i =
                              \<lparr>position = positions (kept ! k) ! i,
                               normal = normals (kept ! k) ! i,
                               contact_wrench = wrench (kept ! k) ! i,
                               depth = depths (kept ! k) ! i\<rparr>)"
      by simp
  qed
  ultimately show "\<exists>ret cerr. GetContactInfoHelper s (world a) m1 m2 = Inr (ret, cerr)
              \<and> length ret = length kept
              \<and> (\<forall>k<length kept.
                    GetModel (collision1 (kept ! k)) = Some (model1 (ret ! k))
                    \<and> GetLink (collision1 (kept ! k)) = Some (modelPart1 (ret ! k))
                    \<and> GetModel (collision2 (kept ! k)) = Some (model2 (ret ! k))
                    \<and> GetLink (collision2 (kept ! k)) = Some (modelPart2 (ret ! k))
                    \<and> int (length (contacts (ret ! k))) = count (kept ! k)
                    \<and> (\<forall>i<length (contacts (ret ! k)).
                          i < length (positions (kept ! k)) \<and> i < length (normals (kept ! k))
                          \<and> i < length (wrench (kept ! k)) \<and> i < length (depths (kept ! k))
                          \<and> contacts (ret ! k) ! i =
                              \<lparr>position = positions (kept ! k) ! i,
                               normal = normals (kept ! k) ! i,
                               contact_wrench = wrench (kept ! k) ! i,
                               depth = depths (kept ! k) ! i\<rparr>))"
    by blast
qed

theorem ContactInfo_is_copy_of_record_witness:
  "\<exists>ret cerr. GetContactInfo (ex_adaptor False) (ex_store True) = Inr (ret, cerr)
      \<and> length ret = 2
      \<and> model1 (ret ! 0) = ''box'' \<and> modelPart1 (ret ! 0) = ''link''
      \<and> model2 (ret ! 0) = ''cylinder'' \<and> modelPart2 (ret ! 0) = ''link''
      \<and> length (contacts (ret ! 0)) = 2
      \<and> contacts (ret ! 0) ! 1 =
          \<lparr>position = (0, 1, 1), normal = (0, 0, - 1), contact_wrench = 31, depth = 41\<rparr>"
proof -
  let ?c0 = "ex_contact ''box'' ''cylinder'' 2"
  let ?c2 = "ex_contact ''box'' ''ground'' 1"
  let ?cs = "[?c0, ex_contact ''cylinder'' ''box'' 0, ?c2]"
  have kept: "[?c0, ?c2] = filter (\<lambda>c. passes None None c \<and> 0 < count c) ?cs"
    by (simp add: passes_def skip_contact_def ex_contact_def)
  note inst =
    ContactInfo_is_copy_of_record[OF ex_manager_records[of True False] ex_well_formed kept]
  from inst[THEN conjunct2, THEN conjunct2]
  obtain ret cerr where h: "GetContactInfoHelper (ex_store True) (world (ex_adaptor False))
                               None None = Inr (ret, cerr)"
    and len: "length ret = length [?c0, ?c2]"
    and all: "\<forall>k<length [?c0, ?c2].
                    GetModel (collision1 ([?c0, ?c2] ! k)) = Some (model1 (ret ! k))
                    \<and> GetLink (collision1 ([?c0, ?c2] ! k)) = Some (modelPart1 (ret ! k))
                    \<and> GetModel (collision2 ([?c0, ?c2] ! k)) = Some (model2 (ret ! k))
                    \<and> GetLink (collision2 ([?c0, ?c2] ! k)) = Some (modelPart2 (ret ! k))
                    \<and> int (length (contacts (ret ! k))) = count ([?c0, ?c2] ! k)
                    \<and> (\<forall>i<length (contacts (ret ! k)).
                          i < length (positions ([?c0, ?c2] ! k))
                          \<and> i < length (normals ([?c0, ?c2] ! k))
                          \<and> i < length (wrench ([?c0, ?c2] ! k))
                          \<and> i < length (depths ([?c0, ?c2] ! k))
                          \<and> contacts (ret ! k) ! i =
                              \<lparr>position = positions ([?c0, ?c2] ! k) ! i,
                               normal = normals ([?c0, ?c2] ! k) ! i,
                               contact_wrench = wrench ([?c0, ?c2] ! k) ! i,
                               depth = depths ([?c0, ?c2] ! k) ! i\<rparr>)"
    by blast
  from h have r: "GetContactInfo (ex_adaptor False) (ex_store True) = Inr (ret, cerr)"
    by (simp add: GetContactInfo_def)
  from all[rule_format, of 0] have
    names: "model1 (ret ! 0) = ''box''" "modelPart1 (ret ! 0) = ''link''"
      "model2 (ret ! 0) = ''cylinder''" "modelPart2 (ret ! 0) = ''link''"
    and n: "length (contacts (ret ! 0)) = 2"
    and pts: "\<forall>i<length (contacts (ret ! 0)).
               contacts (ret ! 0) ! i =
                 \<lparr>position = positions ?c0 ! i, normal = normals ?c0 ! i,
                  contact_wrench = wrench ?c0 ! i, depth = depths ?c0 ! i\<rparr>"
    by (auto simp: ex_contact_def)
  from pts n have "contacts (ret ! 0) ! 1 =
          \<lparr>position = (0, 1, 1), normal = (0, 0, - 1), contact_wrench = 31, depth = 41\<rparr>"
    by (simp add: ex_contact_def)
  with r len names n show ?thesis by simp
qed

text \<open>
  C10: every \<open>ContactInfo\<close> in the vector that \<open>GetContactInfo\<close> returns, with or
  without the model filter, has a non-empty \<open>contacts\<close> vector, whatever the store
  holds. Where the contact manager's records are well formed, the call returns, the
  records without points are left out of the result, and each of them that passes the
  model filter is diagnosed by one line on \<^verbatim>\<open>std::cerr\<close>.
\<close>

theorem GetContactInfo_entries_nonempty:
  "(GetContactInfo a s = Inr (ret, cerr) \<longrightarrow> (\<forall>info\<in>set ret. contacts info \<noteq> []))
   \<and> (GetContactInfo2 a s m1 m2 = Inr (ret2, cerr2)
        \<longrightarrow> (\<forall>info\<in>set ret2. contacts info \<noteq> []))
   \<and> (manager_records s (world a) = Some (w, cs) \<and> (\<forall>c\<in>set cs. well_formed c) \<longrightarrow>
        (\<exists>r e. GetContactInfo a s = Inr (r, e)
           \<and> length r = length (filter (\<lambda>c. 0 < count c) cs)
           \<and> e = map (diagnosis (World_Name w)) (filter (\<lambda>c. count c \<le> 0) cs))
      \<and> (\<exists>r e. GetContactInfo2 a s m1 m2 = Inr (r, e)
           \<and> length r = length (filter (\<lambda>c. same_models m1 m2 c \<and> 0 < count c) cs)
           \<and> e = map (diagnosis (World_Name w))
                   (filter (\<lambda>c. same_models m1 m2 c \<and> count c \<le> 0) cs)))"
proof (intro conjI impI)
  assume "GetContactInfo a s = Inr (ret, cerr)"
  then show "\<forall>info\<in>set ret. contacts info \<noteq> []"
    unfolding GetContactInfo_def by (rule GetContactInfoHelper_nonempty)
next
  assume "GetContactInfo2 a s m1 m2 = Inr (ret2, cerr2)"
  then show "\<forall>info\<in>set ret2. contacts info \<noteq> []"
    unfolding GetContactInfo2_def by (rule GetContactInfoHelper_nonempty)
next
  assume "manager_records s (world a) = Some (w, cs) \<and> (\<forall>c\<in>set cs. well_formed c)"
  then have mr: "manager_records s (world a) = Some (w, cs)"
    and wf: "\<forall>c\<in>set cs. well_formed c"
    by simp_all
  have f: "filter (\<lambda>c. passes None None c \<and> 0 < count c) cs = filter (\<lambda>c. 0 < count c) cs"
    "filter (\<lambda>c. passes None None c \<and> \<not> 0 < count c) cs = filter (\<lambda>c. count c \<le> 0) cs"
    using wf by (auto intro!: filter_cong simp: passes_None)
  show "\<exists>r e. GetContactInfo a s = Inr (r, e)
           \<and> length r = length (filter (\<lambda>c. 0 < count c) cs)
           \<and> e = map (diagnosis (World_Name w)) (filter (\<lambda>c. count c \<le> 0) cs)"
    unfolding GetContactInfo_def GetContactInfoHelper_wf[OF mr wf] f by simp
  show "\<exists>r e. GetContactInfo2 a s m1 m2 = Inr (r, e)
           \<and> length r = length (filter (\<lambda>c. same_models m1 m2 c \<and> 0 < count c) cs)
           \<and> e = map (diagnosis (World_Name w))
                   (filter (\<lambda>c. same_models m1 m2 c \<and> count c \<le> 0) cs)"
    unfolding GetContactInfo2_def GetContactInfoHelper_wf[OF mr wf] passes_Some
    by (simp add: not_less)
qed

theorem GetContactInfo_entries_nonempty_witness:
  "\<exists>r e. GetContactInfo (ex_adaptor False) (ex_store True) = Inr (r, e)
      \<and> length r = 2
      \<and> list_all (\<lambda>info. contacts info \<noteq> []) r
      \<and> e = [diagnosis ''default'' (ex_contact ''cylinder'' ''box'' 0)]"
proof -
  let ?cs = "[ex_contact ''box'' ''cylinder'' 2, ex_contact ''cylinder'' ''box'' 0,
            ex_contact ''box'' ''ground'' 1]"
  note inst = GetContactInfo_entries_nonempty[of "ex_adaptor False" "ex_store True" _ _
      "''box''" "''cylinder''" "[]" "[]" "ex_world True" ?cs]
  from inst ex_manager_records ex_well_formed
  obtain r e where r: "GetContactInfo (ex_adaptor False) (ex_store True) = Inr (r, e)"
    and len: "length r = length (filter (\<lambda>c. 0 < count c) ?cs)"
    and e: "e = map (diagnosis (World_Name (ex_world True))) (filter (\<lambda>c. count c \<le> 0) ?cs)"
    by blast
  from GetContactInfo_entries_nonempty[of "ex_adaptor False" "ex_store True" r e] r
  have "\<forall>info\<in>set r. contacts info \<noteq> []" by blast
  then have "list_all (\<lambda>info. contacts info \<noteq> []) r" by (simp add: list_all_iff)
  moreover from len have "length r = 2" by (simp add: ex_contact_def)
  moreover from e have "e = [diagnosis ''default'' (ex_contact ''cylinder'' ''box'' 0)]"
    by (simp add: ex_contact_def ex_world_def)
  ultimately show ?thesis using r by blast
qed

subsection \<open>Native contacts\<close>

lemma native_contacts_loop_deleters:
  "native_contacts_loop s m1 m2 ps ret = Inr res
     \<Longrightarrow> \<forall>sp\<in>set ret. sp_deleter sp = null_deleter
     \<Longrightarrow> \<forall>sp\<in>set res. sp_deleter sp = null_deleter"
proof (induction ps arbitrary: ret)
  case Nil
  then show ?case by auto
next
  case (Cons p ps)
  from Cons.prems show ?case
    by (auto split: option.splits if_splits dest!: Cons.IH)
qed

lemma native_contacts_loop_wf:
  assumes "map (contact_heap s) ps = map Some cs" and "\<forall>c\<in>set cs. well_formed c"
  shows "\<exists>res. native_contacts_loop s m1 m2 ps ret = Inr (ret @ res)
           \<and> length res = length (filter (passes m1 m2) cs)
           \<and> set (map sp_get res) \<subseteq> set ps"
  using assms
proof (induction ps arbitrary: cs ret)
  case Nil
  then show ?case by simp
next
  case (Cons p ps)
  from Cons.prems(1) obtain c cs' where cs: "cs = c # cs'" and hp: "contact_heap s p = Some c"
    and rest: "map (contact_heap s) ps = map Some cs'"
    by (cases cs) auto
  from Cons.prems(2) cs have wf: "well_formed c" and wfs: "\<forall>c\<in>set cs'. well_formed c"
    by auto
  from wf obtain a la b lb where names: "GetModel (collision1 c) = Some a"
    "GetLink (collision1 c) = Some la" "GetModel (collision2 c) = Some b"
    "GetLink (collision2 c) = Some lb"
    by (auto simp: well_formed_def)
  have pass: "passes m1 m2 c = (\<not> skip_contact m1 m2 a b)"
    by (simp add: passes_def names)
  show ?case
  proof (cases "skip_contact m1 m2 a b")
    case True
    from Cons.IH[OF rest wfs, of ret] obtain res where
      "native_contacts_loop s m1 m2 ps ret = Inr (ret @ res)"
      "length res = length (filter (passes m1 m2) cs')" "set (map sp_get res) \<subseteq> set ps"
      by blast
    with True show ?thesis
      by (auto simp: hp names cs pass)
  next
    case False
    let ?sp = "\<lparr>sp_get = p, sp_deleter = null_deleter\<rparr>"
    from Cons.IH[OF rest wfs, of "ret @ [?sp]"] obtain res where
      r: "native_contacts_loop s m1 m2 ps (ret @ [?sp]) = Inr ((ret @ [?sp]) @ res)"
      and l: "length res = length (filter (passes m1 m2) cs')"
      and g: "set (map sp_get res) \<subseteq> set ps"
      by blast
    have "native_contacts_loop s m1 m2 (p # ps) ret = Inr (ret @ (?sp # res))"
      using False r by (simp add: hp names)
    moreover have "length (?sp # res) = length (filter (passes m1 m2) cs)"
      using False l by (simp add: cs pass)
    moreover have "set (map sp_get (?sp # res)) \<subseteq> set (p # ps)"
      using g by auto
    ultimately show ?thesis by blast
  qed
qed

lemma GetNativeContactsHelper_deleters:
  "GetNativeContactsHelper s p m1 m2 = Inr res \<Longrightarrow> \<forall>sp\<in>set res. sp_deleter sp = null_deleter"
  by (auto simp: GetNativeContactsHelper_def split: sum.splits option.splits
      dest!: native_contacts_loop_deleters)

lemma GetNativeContactsHelper_wf:
  assumes "manager_records s p = Some (w, cs)" and "\<forall>c\<in>set cs. well_formed c"
  shows "\<exists>res. GetNativeContactsHelper s p m1 m2 = Inr res
           \<and> length res = length (filter (passes m1 m2) cs)
           \<and> (\<forall>sp\<in>set res. contact_heap s (sp_get sp) \<noteq> None)"
proof -
  from manager_records_SomeD[OF assms(1)] obtain engine cm where
    w: "deref_world s p = Inr w" "World_Physics w = Some engine"
      "GetContactManager engine = Some cm"
    and cs: "map (contact_heap s) (GetContacts cm) = map Some cs"
    by blast
  from native_contacts_loop_wf[OF cs assms(2), of m1 m2 "[]"] obtain res where
    r: "native_contacts_loop s m1 m2 (GetContacts cm) [] = Inr res"
    and l: "length res = length (filter (passes m1 m2) cs)"
    and g: "set (map sp_get res) \<subseteq> set (GetContacts cm)"
    by auto
  have live: "contact_heap s q \<noteq> None" if "q \<in> set (GetContacts cm)" for q
  proof -
    from that have "contact_heap s q \<in> set (map (contact_heap s) (GetContacts cm))" by simp
    then show ?thesis unfolding cs by auto
  qed
  have "\<forall>sp\<in>set res. contact_heap s (sp_get sp) \<noteq> None"
    using g live by auto
  with r l show ?thesis
    by (simp add: GetNativeContactsHelper_def w)
qed

lemma release_all_null_deleter:
  "\<forall>sp\<in>set sps. sp_deleter sp = null_deleter \<Longrightarrow> release_all sps s = s"
  unfolding release_all_def
  by (induction sps arbitrary: s) (simp_all add: sp_release_def null_deleter_def)

lemma default_delete_deallocates:
  "contact_heap (sp_release \<lparr>sp_get = p, sp_deleter = default_delete\<rparr> s) p = None"
  by (simp add: sp_release_def default_delete_def)

text \<open>
  C7: every pointer that \<open>GetNativeContacts\<close> returns, with or without the model
  filter, carries the deleter that does nothing, so destroying all returned pointers, in
  whatever store, leaves the store as it is. Where the contact manager's records are well
  formed the call returns, and every record a returned pointer points to is still
  allocated after all of them are released. (With \<open>default_delete\<close> a release would end
  the record's lifetime: \<open>default_delete_deallocates\<close>.)
\<close>

theorem native_contact_pointers_own_nothing:
  "(GetNativeContacts a s = Inr res
      \<longrightarrow> (\<forall>sp\<in>set res. sp_deleter sp = null_deleter) \<and> release_all res s' = s')
   \<and> (GetNativeContacts2 a s m1 m2 = Inr res2
      \<longrightarrow> (\<forall>sp\<in>set res2. sp_deleter sp = null_deleter) \<and> release_all res2 s' = s')
   \<and> (manager_records s (world a) = Some (w, cs) \<and> (\<forall>c\<in>set cs. well_formed c) \<longrightarrow>
        (\<exists>r. GetNativeContacts a s = Inr r \<and> length r = length cs
           \<and> (\<forall>sp\<in>set r. contact_heap (release_all r s) (sp_get sp) \<noteq> None))
      \<and> (\<exists>r. GetNativeContacts2 a s m1 m2 = Inr r
           \<and> length r = length (filter (same_models m1 m2) cs)
           \<and> (\<forall>sp\<in>set r. contact_heap (release_all r s) (sp_get sp) \<noteq> None)))"
proof (intro conjI impI)
  assume "GetNativeContacts a s = Inr res"
  then have d: "\<forall>sp\<in>set res. sp_deleter sp = null_deleter"
    unfolding GetNativeContacts_def by (rule GetNativeContactsHelper_deleters)
  then show "\<forall>sp\<in>set res. sp_deleter sp = null_deleter" .
  from d show "release_all res s' = s'" by (rule release_all_null_deleter)
next
  assume "GetNativeContacts2 a s m1 m2 = Inr res2"
  then have d: "\<forall>sp\<in>set res2. sp_deleter sp = null_deleter"
    unfolding GetNativeContacts2_def by (rule GetNativeContactsHelper_deleters)
  then show "\<forall>sp\<in>set res2. sp_deleter sp = null_deleter" .
  from d show "release_all res2 s' = s'" by (rule release_all_null_deleter)
next
  assume "manager_records s (world a) = Some (w, cs) \<and> (\<forall>c\<in>set cs. well_formed c)"
  then have mr: "manager_records s (world a) = Some (w, cs)"
    and wf: "\<forall>c\<in>set cs. well_formed c"
    by simp_all
  have all: "filter (passes None None) cs = cs"
    using wf by (simp add: passes_None)
  from GetNativeContactsHelper_wf[OF mr wf, of None None] obtain r where
    r: "GetNativeContactsHelper s (world a) None None = Inr r"
    and l: "length r = length cs"
    and live: "\<forall>sp\<in>set r. contact_heap s (sp_get sp) \<noteq> None"
    unfolding all by blast
  from r have "release_all r s = s"
    by (intro release_all_null_deleter GetNativeContactsHelper_deleters)
  with r l live show "\<exists>r. GetNativeContacts a s = Inr r \<and> length r = length cs
           \<and> (\<forall>sp\<in>set r. contact_heap (release_all r s) (sp_get sp) \<noteq> None)"
    by (auto simp: GetNativeContacts_def)
  have sm: "filter (passes (Some m1) (Some m2)) cs = filter (same_models m1 m2) cs"
    by (rule filter_cong) (simp_all add: passes_Some)
  from GetNativeContactsHelper_wf[OF mr wf, of "Some m1" "Some m2"] obtain r2 where
    r2: "GetNativeContactsHelper s (world a) (Some m1) (Some m2) = Inr r2"
    and l2: "length r2 = length (filter (same_models m1 m2) cs)"
    and live2: "\<forall>sp\<in>set r2. contact_heap s (sp_get sp) \<noteq> None"
    unfolding sm by blast
  from r2 have "release_all r2 s = s"
    by (intro release_all_null_deleter GetNativeContactsHelper_deleters)
  with r2 l2 live2 show "\<exists>r. GetNativeContacts2 a s m1 m2 = Inr r
           \<and> length r = length (filter (same_models m1 m2) cs)
           \<and> (\<forall>sp\<in>set r. contact_heap (release_all r s) (sp_get sp) \<noteq> None)"
    by (auto simp: GetNativeContacts2_def)
qed

theorem native_contact_pointers_own_nothing_witness:
  "\<exists>r. GetNativeContacts (ex_adaptor False) (ex_store True) = Inr r
      \<and> length r = 3
      \<and> list_all (\<lambda>sp. sp_deleter sp = null_deleter) r
      \<and> release_all r (ex_store True) = ex_store True
      \<and> list_all (\<lambda>sp. contact_heap (release_all r (ex_store True)) (sp_get sp) \<noteq> None) r"
proof -
  let ?cs = "[ex_contact ''box'' ''cylinder'' 2, ex_contact ''cylinder'' ''box'' 0,
            ex_contact ''box'' ''ground'' 1]"
  note inst = native_contact_pointers_own_nothing[of "ex_adaptor False" "ex_store True" _
      "ex_store True" "''box''" "''cylinder''" "[]" "ex_world True" ?cs]
  from inst ex_manager_records[of True False] ex_well_formed
  obtain r where r: "GetNativeContacts (ex_adaptor False) (ex_store True) = Inr r"
    and len: "length r = length ?cs"
    and live: "\<forall>sp\<in>set r. contact_heap (release_all r (ex_store True)) (sp_get sp) \<noteq> None"
    by blast
  from native_contact_pointers_own_nothing[of "ex_adaptor False" "ex_store True" r
      "ex_store True"] r
  have "\<forall>sp\<in>set r. sp_deleter sp = null_deleter"
    and "release_all r (ex_store True) = ex_store True"
    by blast+
  with r len live show ?thesis
    by (auto simp: list_all_iff)
qed

subsection \<open>Calls on the world\<close>

lemma deref_world_Inr:
  "deref_world s p = Inr w \<longleftrightarrow> (\<exists>q. p = Some q \<and> worlds s q = Some w)"
  by (auto simp: deref_world_def split: option.splits)

lemma world_call_Some:
  "worlds s q = Some w
     \<Longrightarrow> world_call (Some q) c s = Inr (s\<lparr>worlds := (worlds s)(q := Some (apply_call c w))\<rparr>)"
  by (simp add: world_call_def)

lemma Update_paused_world:
  assumes "world a = Some q" and "worlds s q = Some w" and "force \<or> \<not> IsPaused a"
    and "World_pause w"
  shows "Update steps force a s =
           Inr ([], s\<lparr>worlds := (worlds s)
                        (q := Some (w\<lparr>World_calls := World_calls w
                                       @ [Call_Step (unsigned_of_int steps)]\<rparr>))\<rparr>)"
  using assms
  by (auto simp: Update_def deref_world_def world_call_def apply_call_def)

lemma Update_running_world:
  assumes "world a = Some q" and "worlds s q = Some w" and "force \<or> \<not> IsPaused a"
    and "\<not> World_pause w"
  shows "Update steps force a s =
           Inr (if printOnce s then [not_paused_warning] else [],
                s\<lparr>printOnce := False,
                  worlds := (worlds s)
                    (q := Some (w\<lparr>World_pause := True,
                                 World_calls := World_calls w
                                   @ [Call_SetPaused True,
                                      Call_Step (unsigned_of_int steps)]\<rparr>))\<rparr>)"
  using assms
  by (auto simp: Update_def deref_world_def world_call_def apply_call_def)


lemma Update_effect:
  assumes "deref_world s (world a) = Inr w" and "force \<or> \<not> IsPaused a"
  shows "\<exists>out s' w'. Update steps force a s = Inr (out, s')
           \<and> deref_world s' (world a) = Inr w'
           \<and> World_pause w'
           \<and> World_calls w' = World_calls w
                @ (if World_pause w then [] else [Call_SetPaused True])
                @ [Call_Step (unsigned_of_int steps)]
           \<and> (\<forall>q. Some q \<noteq> world a \<longrightarrow> worlds s' q = worlds s q)
           \<and> contact_heap s' = contact_heap s"
proof -
  from assms(1) obtain q where q: "world a = Some q" "worlds s q = Some w"
    by (auto simp: deref_world_Inr)
  show ?thesis
  proof (cases "World_pause w")
    case True
    show ?thesis
      unfolding Update_paused_world[OF q assms(2) True]
      using True by (auto simp: deref_world_def q)
  next
    case False
    show ?thesis
      unfolding Update_running_world[OF q assms(2) False]
      using False by (auto simp: deref_world_def q)
  qed
qed

subsection \<open>Stepping and pausing\<close>




text \<open>
  C9: \<open>SetPaused(flag)\<close> changes the adaptor's own flag only: \<open>IsPaused\<close> returns
  \<open>flag\<close> afterwards, the other members keep their values, and the world that the
  adaptor points to is as before, its pause flag included. \<open>Update(steps, false)\<close> on a
  paused adaptor returns without a call on the world and leaves the store as it is,
  whatever \<open>steps\<close> is; with \<open>force\<close> true the step is issued despite the pause, with
  \<open>steps\<close> as the \<^verbatim>\<open>unsigned int\<close> that \<^verbatim>\<open>World::Step\<close> receives.
\<close>

theorem SetPaused_is_local_and_gates_Update:
  "IsPaused (SetPaused flag a) = flag
   \<and> world (SetPaused flag a) = world a
   \<and> enforceContactComputation (SetPaused flag a) = enforceContactComputation a
   \<and> deref_world s (world (SetPaused flag a)) = deref_world s (world a)
   \<and> (IsPaused a \<longrightarrow> Update steps False a s = Inr ([], s))
   \<and> Update steps False (SetPaused True a) s = Inr ([], s)
   \<and> (IsPaused a \<and> deref_world s (world a) = Inr w \<longrightarrow>
        (\<exists>out s' w'. Update steps True a s = Inr (out, s')
           \<and> deref_world s' (world a) = Inr w'
           \<and> World_calls w' = World_calls w
                @ (if World_pause w then [] else [Call_SetPaused True])
                @ [Call_Step (unsigned_of_int steps)]))"
proof (intro conjI impI)
  assume "IsPaused a \<and> deref_world s (world a) = Inr w"
  then have d: "deref_world s (world a) = Inr w" by simp
  from Update_effect[OF d, of True steps]
  show "\<exists>out s' w'. Update steps True a s = Inr (out, s')
           \<and> deref_world s' (world a) = Inr w'
           \<and> World_calls w' = World_calls w
                @ (if World_pause w then [] else [Call_SetPaused True])
                @ [Call_Step (unsigned_of_int steps)]"
    by blast
qed (simp_all add: SetPaused_def IsPaused_def Update_def)

theorem SetPaused_is_local_and_gates_Update_witness:
  "IsPaused (SetPaused True (ex_adaptor False))
   \<and> world (SetPaused True (ex_adaptor False)) = Some 7
   \<and> Update 3 False (SetPaused True (ex_adaptor False)) (ex_store True)
       = Inr ([], ex_store True)
   \<and> IsPaused (ex_adaptor True)
   \<and> Update 3 False (ex_adaptor True) (ex_store True) = Inr ([], ex_store True)
   \<and> (\<exists>out s' w'. Update 3 True (ex_adaptor True) (ex_store True) = Inr (out, s')
         \<and> deref_world s' (Some 7) = Inr w'
         \<and> World_calls w' = [Call_Step 3])"
proof -
  have p: "IsPaused (ex_adaptor True)"
    by (simp add: IsPaused_def ex_adaptor_def)
  have d: "deref_world (ex_store True) (world (ex_adaptor True)) = Inr (ex_world True)"
    by (simp add: deref_world_def ex_store_def ex_adaptor_def)
  note set = SetPaused_is_local_and_gates_Update[of True "ex_adaptor False" "ex_store True" 3]
  from set have s1: "IsPaused (SetPaused True (ex_adaptor False))"
    and s2: "world (SetPaused True (ex_adaptor False)) = Some 7"
    and s3: "Update 3 False (SetPaused True (ex_adaptor False)) (ex_store True)
               = Inr ([], ex_store True)"
    by (simp_all add: ex_adaptor_def)
  note inst = SetPaused_is_local_and_gates_Update[of True "ex_adaptor True" "ex_store True" 3
      "ex_world True"]
  from inst p have u: "Update 3 False (ex_adaptor True) (ex_store True) = Inr ([], ex_store True)"
    by blast
  from inst p d have "\<exists>out s' w'. Update 3 True (ex_adaptor True) (ex_store True) = Inr (out, s')
         \<and> deref_world s' (world (ex_adaptor True)) = Inr w'
         \<and> World_calls w' = World_calls (ex_world True)
                @ (if World_pause (ex_world True) then [] else [Call_SetPaused True])
                @ [Call_Step (unsigned_of_int 3)]"
    by blast
  then have "\<exists>out s' w'. Update 3 True (ex_adaptor True) (ex_store True) = Inr (out, s')
         \<and> deref_world s' (Some 7) = Inr w'
         \<and> World_calls w' = [Call_Step 3]"
    by (simp add: ex_adaptor_def ex_world_def unsigned_of_int_def)
  with s1 s2 s3 p u show ?thesis by blast
qed

subsection \<open>Setting the world\<close>

lemma SetWorld_valid:
  assumes "worlds s q = Some w" and "World_Physics w = Some engine"
    and "GetContactManager engine = Some cm"
  shows "SetWorld a s (Some q) =
           Inr (REFERENCED, a\<lparr>world := Some q\<rparr>,
                s\<lparr>worlds := (worlds s)
                    (q := Some (w\<lparr>World_pause := True,
                                 World_calls := World_calls w
                                   @ [Call_SetEnforceContacts (enforceContactComputation a),
                                      Call_Stop, Call_SetPaused True, Call_Run 0]\<rparr>))\<rparr>)"
  using assms
  by (simp add: SetWorld_def to_boost_ptr_def SetEnforceContactsComputation_def
      PostWorldLoaded_def deref_world_def world_call_def apply_call_def)

lemma SetWorld_Inr:
  assumes "SetWorld a s p = Inr (r, a', s')"
  shows "r = REFERENCED \<and> world a' = p \<and> p \<noteq> None"
  using assms
  by (auto simp: SetWorld_def to_boost_ptr_def SetEnforceContactsComputation_def
      PostWorldLoaded_def deref_world_def Let_def
      split: sum.splits option.splits prod.splits)

text \<open>
  C2, as the code has it: \<open>IsAdaptor\<close> is true for every instance. Whenever
  \<open>SetWorld(w)\<close> returns, it returns \<open>REFERENCED\<close>, never \<open>COPIED\<close> or \<open>ERROR\<close>,
  the pointer was not null, and \<open>GetWorld\<close> then returns \<open>w\<close>. For every pointer to a
  world that has a physics engine with a contact manager, \<open>SetWorld\<close> does return, and
  \<open>GetWorld\<close> points to that same world object: its name and engine are as before, its
  log has grown by the four calls of \<open>SetWorld\<close>, and no world was added to the store.
\<close>

theorem SetWorld_references_valid_world:
  "IsAdaptor a
   \<and> (SetWorld a s p = Inr (r, a', s')
        \<longrightarrow> r = REFERENCED \<and> GetWorld a' = p \<and> p \<noteq> None)
   \<and> (deref_world s p = Inr w \<and> World_Physics w = Some engine
        \<and> GetContactManager engine = Some cm \<longrightarrow>
        (\<exists>a2 s2 w2. SetWorld a s p = Inr (REFERENCED, a2, s2)
           \<and> GetWorld a2 = p
           \<and> deref_world s2 (GetWorld a2) = Inr w2
           \<and> World_Name w2 = World_Name w \<and> World_Physics w2 = World_Physics w
           \<and> World_calls w2 = World_calls w
                @ [Call_SetEnforceContacts (enforceContactComputation a),
                   Call_Stop, Call_SetPaused True, Call_Run 0]
           \<and> dom (worlds s2) = dom (worlds s)
           \<and> contact_heap s2 = contact_heap s))"
proof (intro conjI impI)
  show "IsAdaptor a" by (simp add: IsAdaptor_def)
next
  assume "SetWorld a s p = Inr (r, a', s')"
  from SetWorld_Inr[OF this]
  show "r = REFERENCED" and "GetWorld a' = p" and "p \<noteq> None"
    by (simp_all add: GetWorld_def to_std_ptr_def)
next
  assume "deref_world s p = Inr w \<and> World_Physics w = Some engine
        \<and> GetContactManager engine = Some cm"
  then obtain q where q: "p = Some q" "worlds s q = Some w"
    and e: "World_Physics w = Some engine" "GetContactManager engine = Some cm"
    by (auto simp: deref_world_Inr)
  have "dom ((worlds s)(q := Some x)) = dom (worlds s)" for x
    using q(2) by auto
  then show "\<exists>a2 s2 w2. SetWorld a s p = Inr (REFERENCED, a2, s2)
           \<and> GetWorld a2 = p
           \<and> deref_world s2 (GetWorld a2) = Inr w2
           \<and> World_Name w2 = World_Name w \<and> World_Physics w2 = World_Physics w
           \<and> World_calls w2 = World_calls w
                @ [Call_SetEnforceContacts (enforceContactComputation a),
                   Call_Stop, Call_SetPaused True, Call_Run 0]
           \<and> dom (worlds s2) = dom (worlds s)
           \<and> contact_heap s2 = contact_heap s"
    unfolding q(1) SetWorld_valid[OF q(2) e]
    by (simp add: GetWorld_def to_std_ptr_def deref_world_def)
qed

theorem SetWorld_references_valid_world_witness:
  "\<exists>a2 s2 w2. SetWorld (new_GazeboPhysicsWorld False) (ex_store False) (Some 7)
                  = Inr (REFERENCED, a2, s2)
      \<and> GetWorld a2 = Some 7
      \<and> deref_world s2 (GetWorld a2) = Inr w2
      \<and> World_Name w2 = ''default''
      \<and> World_calls w2
          = [Call_SetEnforceContacts False, Call_Stop, Call_SetPaused True, Call_Run 0]"
proof -
  have d: "deref_world (ex_store False) (Some 7) = Inr (ex_world False)
           \<and> World_Physics (ex_world False)
               = Some \<lparr>GetContactManager = Some \<lparr>GetContacts = [0, 1, 2]\<rparr>\<rparr>
           \<and> GetContactManager \<lparr>GetContactManager = Some \<lparr>GetContacts = [0, 1, 2]\<rparr>\<rparr>
               = Some \<lparr>GetContacts = [0, 1, 2]\<rparr>"
    by (simp add: deref_world_def ex_store_def ex_world_def)
  note inst = SetWorld_references_valid_world[of "new_GazeboPhysicsWorld False"
      "ex_store False" "Some 7" _ _ _ "ex_world False"
      "\<lparr>GetContactManager = Some \<lparr>GetContacts = [0, 1, 2]\<rparr>\<rparr>" "\<lparr>GetContacts = [0, 1, 2]\<rparr>"]
  from inst d have "\<exists>a2 s2 w2. SetWorld (new_GazeboPhysicsWorld False) (ex_store False) (Some 7)
                  = Inr (REFERENCED, a2, s2)
           \<and> GetWorld a2 = Some 7
           \<and> deref_world s2 (GetWorld a2) = Inr w2
           \<and> World_Name w2 = World_Name (ex_world False)
           \<and> World_Physics w2 = World_Physics (ex_world False)
           \<and> World_calls w2 = World_calls (ex_world False)
                @ [Call_SetEnforceContacts
                     (enforceContactComputation (new_GazeboPhysicsWorld False)),
                   Call_Stop, Call_SetPaused True, Call_Run 0]
           \<and> dom (worlds s2) = dom (worlds (ex_store False))
           \<and> contact_heap s2 = contact_heap (ex_store False)"
    by blast
  then show ?thesis
    by (auto simp: ex_world_def new_GazeboPhysicsWorld_def)
qed

text \<open>
  C2 as stated fails for the null pointer: \<open>SetWorld\<close> dereferences the pointer it has
  just stored (\<^verbatim>\<open>world->Physics()\<close>) and does not return \<open>REFERENCED\<close>.
\<close>

theorem SetWorld_null_pointer_fails:
  "SetWorld (new_GazeboPhysicsWorld False) (ex_store False) None = Inl InvalidPointer"
  by (simp add: SetWorld_def to_boost_ptr_def SetEnforceContactsComputation_def
      deref_world_def new_GazeboPhysicsWorld_def)

subsection \<open>World states\<close>

text \<open>
  \<open>GetWorldStateDiff(other)\<close> on an adaptor of a world: the simulator's subtraction is
  applied to \<open>other\<close> and the snapshot of the world, in this order. What the
  subtraction computes, and what applying its result to a world does, is the simulator's.
\<close>

lemma GetWorldStateDiff_operands:
  assumes "deref_world s (world a) = Inr w"
  shows "GetWorldState a s = Inr (World_state w)
         \<and> GetWorldStateDiff state_minus a s other = Inr (state_minus other (World_state w))"
  using assms by (simp add: GetWorldState_def GetWorldStateDiff_def)

text \<open>
  C8: whenever \<open>SetWorldState\<close> returns, it returns \<open>SUCCESS\<close>, never \<open>FAILED\<close>
  or \<open>NOT_SUPPORTED\<close>, for every state and both values of \<open>isDiff\<close>, which it does not
  even look at. It returns whenever its helper does (in a debug build, when the world can
  also be read back), also when the comparison of the debug build finds that the state was
  not established.
\<close>

theorem SetWorldState_returns_SUCCESS:
  "(SetWorldState DEBUG set_state Equal a s st isDiff = Inr (r, out, s') \<longrightarrow> r = SUCCESS)
   \<and> SetWorldState DEBUG set_state Equal a s st isDiff \<noteq> Inr (FAILED, out, s')
   \<and> SetWorldState DEBUG set_state Equal a s st isDiff \<noteq> Inr (NOT_SUPPORTED, out, s')
   \<and> SetWorldState DEBUG set_state Equal a s st isDiff
       = SetWorldState DEBUG set_state Equal a s st (\<not> isDiff)
   \<and> (set_state (world a) st s = Inr s1 \<and> (DEBUG \<longrightarrow> deref_world s1 (world a) = Inr w) \<longrightarrow>
        SetWorldState DEBUG set_state Equal a s st isDiff
          = Inr (SUCCESS,
                 if DEBUG \<and> \<not> Equal (World_state w) st
                 then [''Target state was not set as supposed to!!''] else [],
                 s1))"
  by (auto simp: SetWorldState_def split: sum.splits)

theorem SetWorldState_returns_SUCCESS_witness:
  "SetWorldState True (\<lambda>p st s. Inr s) (\<lambda>x y. x = y) (ex_adaptor False) (ex_store True) 9 True
     = Inr (SUCCESS, [''Target state was not set as supposed to!!''], ex_store True)
   \<and> GetWorldState (ex_adaptor False) (ex_store True) = Inr 5"
proof -
  have d: "deref_world (ex_store True) (world (ex_adaptor False)) = Inr (ex_world True)"
    by (simp add: deref_world_def ex_store_def ex_adaptor_def)
  note inst = SetWorldState_returns_SUCCESS[of True "\<lambda>p st s. Inr s" "\<lambda>x y. x = y"
      "ex_adaptor False" "ex_store True" 9 True _ _ _ "ex_store True" "ex_world True"]
  from inst[THEN conjunct2, THEN conjunct2, THEN conjunct2, THEN conjunct2] d
  have "SetWorldState True (\<lambda>p st s. Inr s) (\<lambda>x y. x = y) (ex_adaptor False) (ex_store True) 9 True
     = Inr (SUCCESS,
            if True \<and> \<not> World_state (ex_world True) = 9
            then [''Target state was not set as supposed to!!''] else [],
            ex_store True)"
    by blast
  then have "SetWorldState True (\<lambda>p st s. Inr s) (\<lambda>x y. x = y) (ex_adaptor False) (ex_store True) 9 True
     = Inr (SUCCESS, [''Target state was not set as supposed to!!''], ex_store True)"
    by (simp add: ex_world_def)
  moreover have "GetWorldState (ex_adaptor False) (ex_store True) = Inr 5"
    by (simp add: GetWorldState_def d ex_world_def)
  ultimately show ?thesis by simp
qed

subsection \<open>The static tests\<close>

text \<open>
  C5, as the code has it: \<open>TwoShapesTest1\<close> and \<open>SpherePrimMesh\<close> load the same pair
  of shape models into one world per selected engine, and the selected engines are the
  three engines bullet, ode and dart.
\<close>

theorem static_tests_load_shapes_into_three_engines:
  "map engine_name (TwoShapesTest1_worlds :: ('n::numeral, 'm) engine_world list)
     = [''bullet'', ''ode'', ''dart'']
   \<and> (\<forall>w\<in>set (TwoShapesTest1_worlds :: ('n::numeral, 'm) engine_world list).
         loaded_models w = [(''model1'', CreateBox 2 2 2), (''model2'', CreateCylinder 1 3)])
   \<and> map engine_name (SpherePrimMesh_worlds mesh :: ('n::numeral, 'm) engine_world list)
     = [''bullet'', ''ode'', ''dart'']
   \<and> (\<forall>w\<in>set (SpherePrimMesh_worlds mesh :: ('n::numeral, 'm) engine_world list).
         loaded_models w = [(''SphereMesh'', SimpleTriMeshShape mesh ''SphereMesh''),
                            (''SpherePrimitive'', CreateSphere 2)])"
  by (simp add: TwoShapesTest1_worlds_def SpherePrimMesh_worlds_def
      LoadShape_def PrepareWorld_def TwoShapesTest1_selectedEngines_def
      SpherePrimMesh_selectedEngines_def)

theorem static_tests_load_shapes_into_three_engines_witness:
  "map engine_name (TwoShapesTest1_worlds :: (int, unit) engine_world list)
     = [''bullet'', ''ode'', ''dart'']
   \<and> list_all (\<lambda>w. loaded_models w
                     = [(''model1'', CreateBox 2 2 2), (''model2'', CreateCylinder 1 3)])
       (TwoShapesTest1_worlds :: (int, unit) engine_world list)"
  using static_tests_load_shapes_into_three_engines[where 'n = int and 'm = unit]
  by (simp add: list_all_iff)

text \<open>
  C5 as stated fails: simbody is not among the engines the tests select.
\<close>

theorem static_tests_do_not_select_simbody:
  "TwoShapesTest1_selectedEngines = [''bullet'', ''ode'', ''dart'']
   \<and> CylinderAndTwoTriangles_selectedEngines = [''bullet'', ''ode'', ''dart'']
   \<and> SpherePrimMesh_selectedEngines = [''bullet'', ''ode'', ''dart'']
   \<and> ''simbody'' \<notin> set TwoShapesTest1_selectedEngines
   \<and> ''simbody'' \<notin> set CylinderAndTwoTriangles_selectedEngines
   \<and> ''simbody'' \<notin> set SpherePrimMesh_selectedEngines"
  by (simp add: TwoShapesTest1_selectedEngines_def CylinderAndTwoTriangles_selectedEngines_def
      SpherePrimMesh_selectedEngines_def)

end
